theory Spec2Isabelle
  imports Main "HOL-Library.Word"
begin

unbundle bit_operations_syntax

section \<open>Money type: float64 dollars to int64 minor units\<close>

text \<open>
  The service receives amounts as Go \<open>float64\<close> and keeps balances as \<open>int64\<close>
  minor units. A \<open>float64\<close> is its IEEE 754 binary64 bit pattern: bit 63 is the sign,
  bits 62..52 the biased exponent, bits 51..0 the fraction. An \<open>int64\<close> is a 64-bit word
  read in two's complement (\<open>sint\<close>); its \<open>+\<close>, \<open>-\<close> and unary minus wrap around, as
  Go's do.
\<close>

type_synonym float64 = "64 word"
type_synonym int64 = "64 word"

definition f64_sign :: "float64 \<Rightarrow> bool" where
  "f64_sign x = bit x 63"

definition f64_exp :: "float64 \<Rightarrow> nat" where
  "f64_exp x = unat (drop_bit 52 x AND 0x7FF)"

definition f64_frac :: "float64 \<Rightarrow> nat" where
  "f64_frac x = unat (x AND 0xFFFFFFFFFFFFF)"

text \<open>
  A decoded value: not a number, an infinity with its sign, or the finite number
  \<open>(-1)^s * m * 2^e\<close> as \<open>Fin s m e\<close>.
\<close>

datatype fval = NaN | Inf bool | Fin bool nat int

definition f64_decode :: "float64 \<Rightarrow> fval" where
  "f64_decode x =
     (if f64_exp x = 2047 then (if f64_frac x = 0 then Inf (f64_sign x) else NaN)
      else if f64_exp x = 0 then Fin (f64_sign x) (f64_frac x) (- 1074)
      else Fin (f64_sign x) (2 ^ 52 + f64_frac x) (int (f64_exp x) - 1075))"

text \<open>The Go comparison \<open>amount <= 0\<close>: false for NaN, true for both zeros.\<close>

fun fval_le_zero :: "fval \<Rightarrow> bool" where
  "fval_le_zero NaN = False"
| "fval_le_zero (Inf s) = s"
| "fval_le_zero (Fin s m e) = (s \<or> m = 0)"

definition f64_le_zero :: "float64 \<Rightarrow> bool" where
  "f64_le_zero x = fval_le_zero (f64_decode x)"

text \<open>Number of binary digits of a natural number.\<close>

fun bitlen :: "nat \<Rightarrow> nat" where
  "bitlen n = (if n = 0 then 0 else Suc (bitlen (n div 2)))"

declare bitlen.simps [simp del]

text \<open>
  Rounding of the exact value \<open>m * 2^e\<close> to binary64, to nearest with ties to even:
  the result keeps at most 53 significant bits, its exponent is at least \<open>-1074\<close>
  (subnormal range), and a magnitude of \<open>2^1024\<close> or more becomes an infinity.
\<close>

definition round_f64 :: "bool \<Rightarrow> nat \<Rightarrow> int \<Rightarrow> fval" where
  "round_f64 s m e =
     (let e' = max (e + int (bitlen m) - 53) (- 1074) in
      if e' \<le> e then (if e + int (bitlen m) > 1024 then Inf s else Fin s m e)
      else
        let d = nat (e' - e);
            q = m div 2 ^ d;
            r = m mod 2 ^ d;
            half = 2 ^ (d - 1);
            q' = (if r > half \<or> (r = half \<and> odd q) then q + 1 else q)
        in if e' + int (bitlen q') > 1024 then Inf s else Fin s q' e')"

text \<open>The float64 product \<open>dollars * 100\<close>; the constant 100 is positive and exact.\<close>

fun fmul100 :: "fval \<Rightarrow> fval" where
  "fmul100 NaN = NaN"
| "fmul100 (Inf s) = Inf s"
| "fmul100 (Fin s m e) = round_f64 s (m * 100) e"

text \<open>
  The Go conversion \<open>int64(f)\<close> discards the fraction (truncation towards zero). For a
  value that \<open>int64\<close> cannot represent (NaN, an infinity, a magnitude out of range) the
  language leaves the result to the implementation; it is the parameter \<open>oor\<close>.
\<close>

fun trunc_fin :: "bool \<Rightarrow> nat \<Rightarrow> int \<Rightarrow> int" where
  "trunc_fin s m e =
     (let t = (if 0 \<le> e then int m * 2 ^ nat e else int m div 2 ^ nat (- e))
      in if s then - t else t)"

fun to_int64 :: "(fval \<Rightarrow> int64) \<Rightarrow> fval \<Rightarrow> int64" where
  "to_int64 oor NaN = oor NaN"
| "to_int64 oor (Inf s) = oor (Inf s)"
| "to_int64 oor (Fin s m e) =
     (let t = trunc_fin s m e
      in if - (2 ^ 63) \<le> t \<and> t < 2 ^ 63 then word_of_int t else oor (Fin s m e))"

text \<open>\<open>func DollarsToMinorUnits(dollars float64) int64 { return int64(dollars * 100) }\<close>\<close>

definition DollarsToMinorUnits :: "(fval \<Rightarrow> int64) \<Rightarrow> float64 \<Rightarrow> int64" where
  "DollarsToMinorUnits oor dollars = to_int64 oor (fmul100 (f64_decode dollars))"

text \<open>
  On amd64 the conversion instruction yields the pattern \<open>0x8000000000000000\<close> for every
  unrepresentable value.
\<close>

definition amd64_oor :: "fval \<Rightarrow> int64" where
  "amd64_oor v = 0x8000000000000000"


section \<open>Data model\<close>

text \<open>
  The rows of the three tables, with the columns the ledger engine reads or writes.
  Identifiers are Go \<open>uint\<close> primary keys assigned by the storage.
\<close>

datatype TransactionType =
  TransactionTypeDeposit | TransactionTypeTransfer | TransactionTypeWithdraw

record Wallet =
  wallet_ID :: nat
  UserID :: nat
  Balance :: int64

record Transaction =
  tx_ID :: nat
  WalletID :: nat
  Type :: TransactionType
  Amount :: int64
  BalanceBefore :: int64
  BalanceAfter :: int64
  FromWalletID :: "nat option"
  ToWalletID :: "nat option"
  TransactionUUID :: string
  Description :: string
  CreatedAt :: nat

text \<open>
  Errors are values. \<open>ErrorsNew msg\<close> is Go's \<open>errors.New(msg)\<close>,
  \<open>ErrRecordNotFound\<close> is \<open>gorm.ErrRecordNotFound\<close>, \<open>ErrDuplicateEntry\<close> is the
  storage's refusal of a second row with the same value in a unique index, and
  \<open>ErrStorage\<close> stands for any other fault of the storage.
\<close>

datatype error =
  ErrorsNew string | ErrRecordNotFound | ErrDuplicateEntry | ErrStorage string

text \<open>
  The relational store: the primary keys of table \<open>users\<close>, and the rows of tables
  \<open>wallets\<close> and \<open>transactions\<close> in insertion order. No operation deletes a row.
\<close>

record database =
  users :: "nat list"
  wallets :: "Wallet list"
  transactions :: "Transaction list"

text \<open>Every call that reaches the storage or the cache is recorded, oldest first.\<close>

datatype event =
  Begin | Commit | Rollback
  | SelectUser nat
  | InsertWallet nat
  | SelectWallet nat
  | SelectForUpdate nat
  | UpdateBalance nat int64
  | InsertTransaction string
  | SelectTransactions nat int int
  | CacheGet string
  | CacheSet string string nat
  | CacheDel string
  | CacheScanDel string

text \<open>
  The world an operation runs in: the store, the cache (key to value and time-to-live
  in seconds) and the calls issued so far.
\<close>

record world =
  db :: database
  cache :: "string \<rightharpoonup> string \<times> nat"
  trace :: "event list"

text \<open>
  What an operation takes from outside the program during one call:
  \<^item> \<open>oor\<close>: the platform's result of \<open>int64(f)\<close> for an unrepresentable \<open>f\<close>;
  \<^item> \<open>storage_fault i\<close>: the error with which the \<open>i\<close>-th storage call of the operation
    fails, if it does (calls are numbered in program order, from 0);
  \<^item> \<open>redis_fault i\<close>: whether the \<open>i\<close>-th cache call of the operation fails;
  \<^item> \<open>new_uuid i\<close>: the text of the \<open>i\<close>-th \<open>uuid.New().String()\<close>;
  \<^item> \<open>clock i\<close>: the time the storage layer reads at the \<open>i\<close>-th storage call;
  \<^item> \<open>tie_rank\<close>: the order in which the storage returns rows that are equal in every
    \<open>ORDER BY\<close> column (the query does not fix it);
  \<^item> the JSON codec of the cached values (\<open>encoding/json\<close>).
\<close>

record env =
  oor :: "fval \<Rightarrow> int64"
  storage_fault :: "nat \<Rightarrow> error option"
  redis_fault :: "nat \<Rightarrow> bool"
  new_uuid :: "nat \<Rightarrow> string"
  clock :: "nat \<Rightarrow> nat"
  tie_rank :: "Transaction \<Rightarrow> nat"
  json_Marshal_wallet :: "Wallet \<Rightarrow> string"
  json_Unmarshal_wallet :: "string \<rightharpoonup> Wallet"
  json_Marshal_transactions :: "Transaction list \<rightharpoonup> string"
  json_Unmarshal_transactions :: "string \<rightharpoonup> Transaction list"

definition log :: "event \<Rightarrow> world \<Rightarrow> world" where
  "log ev w = w\<lparr>trace := trace w @ [ev]\<rparr>"

section \<open>Storage gateway\<close>

text \<open>
  \<open>tx.Clauses(clause.Locking{Strength: "UPDATE"}).First(&wallet, id)\<close>: the row with
  this primary key, read under an exclusive row lock.
\<close>

definition First_for_update ::
  "env \<Rightarrow> nat \<Rightarrow> nat \<Rightarrow> world \<Rightarrow> (error + Wallet) \<times> world" where
  "First_for_update env i pk w =
     (let w' = log (SelectForUpdate pk) w in
      case storage_fault env i of
        Some e \<Rightarrow> (Inl e, w')
      | None \<Rightarrow>
          (case find (\<lambda>r. wallet_ID r = pk) (wallets (db w')) of
             None \<Rightarrow> (Inl ErrRecordNotFound, w')
           | Some r \<Rightarrow> (Inr r, w')))"

text \<open>\<open>tx.Model(&wallet).Update("balance", newBalance)\<close>\<close>

definition set_balance :: "nat \<Rightarrow> int64 \<Rightarrow> Wallet \<Rightarrow> Wallet" where
  "set_balance pk b r = (if wallet_ID r = pk then r\<lparr>Balance := b\<rparr> else r)"

definition Update_balance ::
  "env \<Rightarrow> nat \<Rightarrow> nat \<Rightarrow> int64 \<Rightarrow> world \<Rightarrow> error option \<times> world" where
  "Update_balance env i pk newBalance w =
     (let w' = log (UpdateBalance pk newBalance) w in
      case storage_fault env i of
        Some e \<Rightarrow> (Some e, w')
      | None \<Rightarrow>
          (None, w'\<lparr>db := (db w')\<lparr>wallets := map (set_balance pk newBalance) (wallets (db w'))\<rparr>\<rparr>))"

text \<open>
  \<open>tx.Create(transaction)\<close>. Column \<open>transaction_uuid\<close> carries a unique index
  (\<open>gorm:"uniqueIndex"\<close>, created by \<open>AutoMigrate\<close>), so a row whose UUID is already in
  the table is refused. The storage fills in the primary key and the creation time; as no
  row is ever deleted the key is taken to be the row count plus one.
\<close>

definition Create_transaction ::
  "env \<Rightarrow> nat \<Rightarrow> Transaction \<Rightarrow> world \<Rightarrow> (error + Transaction) \<times> world" where
  "Create_transaction env i t w =
     (let w' = log (InsertTransaction (TransactionUUID t)) w in
      case storage_fault env i of
        Some e \<Rightarrow> (Inl e, w')
      | None \<Rightarrow>
          if TransactionUUID t \<in> set (map TransactionUUID (transactions (db w')))
          then (Inl ErrDuplicateEntry, w')
          else
            let row = t\<lparr>tx_ID := Suc (length (transactions (db w'))), CreatedAt := clock env i\<rparr>
            in (Inr row, w'\<lparr>db := (db w')\<lparr>transactions := transactions (db w') @ [row]\<rparr>\<rparr>))"

text \<open>
  \<open>s.db.Transaction(func(tx *gorm.DB) error { ... })\<close>: the body runs between begin and
  commit; when the body or the commit fails the store is as it was at begin. Storage
  call 0 is the begin, call \<open>c\<close> the commit.
\<close>

definition db_Transaction ::
  "env \<Rightarrow> nat \<Rightarrow> (world \<Rightarrow> (error + 'a) \<times> world) \<Rightarrow> world \<Rightarrow> (error + 'a) \<times> world" where
  "db_Transaction env c body w =
     (case storage_fault env 0 of
        Some e \<Rightarrow> (Inl e, log Begin w)
      | None \<Rightarrow>
          (case body (log Begin w) of
             (Inl e, w1) \<Rightarrow> (Inl e, log Rollback (w1\<lparr>db := db w\<rparr>))
           | (Inr v, w1) \<Rightarrow>
               (case storage_fault env c of
                  Some e \<Rightarrow> (Inl e, log Commit (w1\<lparr>db := db w\<rparr>))
                | None \<Rightarrow> (Inr v, log Commit w1))))"

text \<open>
  Modelled from the spec: the user repository is not among the sources. Its \<open>GetByID\<close>
  is taken to look the account up by primary key and to signal a not-found outcome that
  differs from other faults, as section 6 of the specification asks of the storage.
\<close>

definition userRepo_GetByID ::
  "env \<Rightarrow> nat \<Rightarrow> nat \<Rightarrow> world \<Rightarrow> (error + nat) \<times> world" where
  "userRepo_GetByID env i pk w =
     (let w' = log (SelectUser pk) w in
      case storage_fault env i of
        Some e \<Rightarrow> (Inl e, w')
      | None \<Rightarrow> if pk \<in> set (users (db w')) then (Inr pk, w') else (Inl ErrRecordNotFound, w'))"

text \<open>\<open>walletRepository.Create\<close>: \<open>r.db.WithContext(ctx).Create(wallet)\<close>\<close>

definition walletRepo_Create ::
  "env \<Rightarrow> nat \<Rightarrow> Wallet \<Rightarrow> world \<Rightarrow> (error + Wallet) \<times> world" where
  "walletRepo_Create env i wallet w =
     (let w' = log (InsertWallet (UserID wallet)) w in
      case storage_fault env i of
        Some e \<Rightarrow> (Inl e, w')
      | None \<Rightarrow>
          let row = wallet\<lparr>wallet_ID := Suc (length (wallets (db w')))\<rparr>
          in (Inr row, w'\<lparr>db := (db w')\<lparr>wallets := wallets (db w') @ [row]\<rparr>\<rparr>))"

text \<open>\<open>walletRepository.GetByID\<close>: \<open>First(&wallet, id)\<close>, without a lock.\<close>

definition walletRepo_GetByID ::
  "env \<Rightarrow> nat \<Rightarrow> nat \<Rightarrow> world \<Rightarrow> (error + Wallet) \<times> world" where
  "walletRepo_GetByID env i pk w =
     (let w' = log (SelectWallet pk) w in
      case storage_fault env i of
        Some e \<Rightarrow> (Inl e, w')
      | None \<Rightarrow>
          (case find (\<lambda>r. wallet_ID r = pk) (wallets (db w')) of
             None \<Rightarrow> (Inl ErrRecordNotFound, w')
           | Some r \<Rightarrow> (Inr r, w')))"

text \<open>
  \<open>transactionRepository.GetByWalletID\<close>:
  \<open>Where("wallet_id = ?", walletID).Order("created_at DESC").Limit(limit).Offset(offset)\<close>.
  The only sort key is the creation time, descending. MySQL is free to return rows with
  identical values in the \<open>ORDER BY\<close> columns in any order, so rows with the same
  creation time come in the order the storage chooses (\<open>tie_rank\<close>): the second sort
  is stable and keeps the order the first one made among equal creation times. The query builder
  writes \<open>LIMIT\<close> for a non-negative limit and \<open>OFFSET\<close> for a positive offset.
\<close>

definition order_by_created_at_desc ::
  "(Transaction \<Rightarrow> nat) \<Rightarrow> Transaction list \<Rightarrow> Transaction list" where
  "order_by_created_at_desc tie rows =
     sort_key (\<lambda>t. - int (CreatedAt t)) (sort_key tie rows)"

definition limit_offset :: "int \<Rightarrow> int \<Rightarrow> 'a list \<Rightarrow> 'a list" where
  "limit_offset limit offset rows =
     (let rest = (if 0 < offset then drop (nat offset) rows else rows)
      in if 0 \<le> limit then take (nat limit) rest else rest)"

definition GetByWalletID ::
  "env \<Rightarrow> nat \<Rightarrow> nat \<Rightarrow> int \<Rightarrow> int \<Rightarrow> world \<Rightarrow> (error + Transaction list) \<times> world" where
  "GetByWalletID env i walletID limit offset w =
     (let w' = log (SelectTransactions walletID limit offset) w in
      case storage_fault env i of
        Some e \<Rightarrow> (Inl e, w')
      | None \<Rightarrow>
          (Inr (limit_offset limit offset
                  (order_by_created_at_desc (tie_rank env)
                     (filter (\<lambda>t. WalletID t = walletID) (transactions (db w'))))), w'))"


section \<open>Cache gateway\<close>

text \<open>
  \<open>redisClient.Get(ctx, key).Result()\<close>: the value when the call returns no error; a
  missing key and a failing cache both return an error.
\<close>

definition redis_Get :: "env \<Rightarrow> nat \<Rightarrow> string \<Rightarrow> world \<Rightarrow> string option \<times> world" where
  "redis_Get env i key w =
     (let w' = log (CacheGet key) w in
      if redis_fault env i then (None, w') else (map_option fst (cache w' key), w'))"

definition redis_Set :: "env \<Rightarrow> nat \<Rightarrow> string \<Rightarrow> string \<Rightarrow> nat \<Rightarrow> world \<Rightarrow> world" where
  "redis_Set env i key val ttl w =
     (let w' = log (CacheSet key val ttl) w in
      if redis_fault env i then w' else w'\<lparr>cache := (cache w')(key \<mapsto> (val, ttl))\<rparr>)"

definition redis_Del :: "env \<Rightarrow> nat \<Rightarrow> string \<Rightarrow> world \<Rightarrow> world" where
  "redis_Del env i key w =
     (let w' = log (CacheDel key) w in
      if redis_fault env i then w' else w'\<lparr>cache := (cache w')(key := None)\<rparr>)"

text \<open>
  A scan for a pattern followed by the deletion of every key it yields. The patterns of
  this program are a literal text followed by one \<open>*\<close>, which matches the keys that
  start with the text.
\<close>

definition matches_pattern :: "string \<Rightarrow> string \<Rightarrow> bool" where
  "matches_pattern pattern key = (take (length (butlast pattern)) key = butlast pattern)"

definition redis_ScanDel :: "env \<Rightarrow> nat \<Rightarrow> string \<Rightarrow> world \<Rightarrow> world" where
  "redis_ScanDel env i pattern w =
     (let w' = log (CacheScanDel pattern) w in
      if redis_fault env i then w'
      else w'\<lparr>cache := (\<lambda>k. if matches_pattern pattern k then None else cache w' k)\<rparr>)"

subsection \<open>Cache keys\<close>

text \<open>The verb \<open>%d\<close> of \<open>fmt.Sprintf\<close> on a \<open>uint\<close> and on an \<open>int\<close>.\<close>

definition digit_char :: "nat \<Rightarrow> char" where
  "digit_char d = ''0123456789'' ! d"

function fmt_uint :: "nat \<Rightarrow> string" where
  "fmt_uint n = (if n < 10 then [digit_char n] else fmt_uint (n div 10) @ [digit_char (n mod 10)])"
  by pat_completeness auto
termination
  by (relation "measure (\<lambda>n. n)") auto

declare fmt_uint.simps [simp del]

definition fmt_int :: "int \<Rightarrow> string" where
  "fmt_int i = (if i < 0 then CHR ''-'' # fmt_uint (nat (- i)) else fmt_uint (nat i))"

text \<open>\<open>fmt.Sprintf("wallet:%d", walletID)\<close>\<close>

definition wallet_cacheKey :: "nat \<Rightarrow> string" where
  "wallet_cacheKey walletID = ''wallet:'' @ fmt_uint walletID"

text \<open>\<open>fmt.Sprintf("user:%d", userID)\<close>\<close>

definition user_cacheKey :: "nat \<Rightarrow> string" where
  "user_cacheKey userID = ''user:'' @ fmt_uint userID"

text \<open>\<open>fmt.Sprintf("wallet:%d:transactions:%d:%d", walletID, limit, offset)\<close>\<close>

definition transactions_cacheKey :: "nat \<Rightarrow> int \<Rightarrow> int \<Rightarrow> string" where
  "transactions_cacheKey walletID limit offset =
     ''wallet:'' @ fmt_uint walletID @ '':transactions:'' @ fmt_int limit @ '':'' @ fmt_int offset"

text \<open>\<open>fmt.Sprintf("wallet:%d:transactions:*", walletID)\<close>\<close>

definition transactions_pattern :: "nat \<Rightarrow> string" where
  "transactions_pattern walletID = ''wallet:'' @ fmt_uint walletID @ '':transactions:*''"

definition invalidateWalletCache :: "env \<Rightarrow> nat \<Rightarrow> nat \<Rightarrow> world \<Rightarrow> world" where
  "invalidateWalletCache env i walletID w = redis_Del env i (wallet_cacheKey walletID) w"

definition invalidateUserCache :: "env \<Rightarrow> nat \<Rightarrow> nat \<Rightarrow> world \<Rightarrow> world" where
  "invalidateUserCache env i userID w = redis_Del env i (user_cacheKey userID) w"

definition invalidateTransactionCache :: "env \<Rightarrow> nat \<Rightarrow> nat \<Rightarrow> world \<Rightarrow> world" where
  "invalidateTransactionCache env i walletID w =
     redis_ScanDel env i (transactions_pattern walletID) w"

section \<open>Ledger engine\<close>

definition CreateWallet :: "env \<Rightarrow> nat \<Rightarrow> world \<Rightarrow> (error + Wallet) \<times> world" where
  "CreateWallet env userID w =
     (case userRepo_GetByID env 0 userID w of
        (Inl err, w1) \<Rightarrow>
          if err = ErrRecordNotFound then (Inl (ErrorsNew ''user not found''), w1)
          else (Inl err, w1)
      | (Inr u, w1) \<Rightarrow>
          (case walletRepo_Create env 1 \<lparr>wallet_ID = 0, UserID = userID, Balance = 0\<rparr> w1 of
             (Inl err, w2) \<Rightarrow> (Inl err, w2)
           | (Inr wallet, w2) \<Rightarrow> (Inr wallet, invalidateUserCache env 0 userID w2)))"

definition GetWallet :: "env \<Rightarrow> nat \<Rightarrow> world \<Rightarrow> (error + Wallet) \<times> world" where
  "GetWallet env walletID w =
     (let cacheKey = wallet_cacheKey walletID;
          (cachedWallet, w1) = redis_Get env 0 cacheKey w
      in case (case cachedWallet of
                 None \<Rightarrow> None
               | Some text \<Rightarrow> json_Unmarshal_wallet env text) of
           Some wallet \<Rightarrow> (Inr wallet, w1)
         | None \<Rightarrow>
             (case walletRepo_GetByID env 0 walletID w1 of
                (Inl err, w2) \<Rightarrow> (Inl err, w2)
              | (Inr wallet, w2) \<Rightarrow>
                  (Inr wallet,
                   redis_Set env 1 cacheKey (json_Marshal_wallet env wallet) (5 * 60) w2)))"

text \<open>
  The body of the storage transaction of \<open>Deposit\<close>: storage calls 1 (locking read),
  2 (balance update) and 3 (record insert).
\<close>

definition Deposit_body ::
  "env \<Rightarrow> nat \<Rightarrow> int64 \<Rightarrow> string \<Rightarrow> world \<Rightarrow> (error + Transaction) \<times> world" where
  "Deposit_body env walletID amountInMinorUnits description tx =
     (case First_for_update env 1 walletID tx of
        (Inl err, tx1) \<Rightarrow> (Inl err, tx1)
      | (Inr wallet, tx1) \<Rightarrow>
          let oldBalance = Balance wallet;
              newBalance = oldBalance + amountInMinorUnits
          in case Update_balance env 2 (wallet_ID wallet) newBalance tx1 of
               (Some err, tx2) \<Rightarrow> (Inl err, tx2)
             | (None, tx2) \<Rightarrow>
                 Create_transaction env 3
                   \<lparr>tx_ID = 0,
                    WalletID = walletID,
                    Type = TransactionTypeDeposit,
                    Amount = amountInMinorUnits,
                    BalanceBefore = oldBalance,
                    BalanceAfter = newBalance,
                    FromWalletID = None,
                    ToWalletID = None,
                    TransactionUUID = new_uuid env 0,
                    Description = description,
                    CreatedAt = 0\<rparr> tx2)"

definition Deposit ::
  "env \<Rightarrow> nat \<Rightarrow> float64 \<Rightarrow> string \<Rightarrow> world \<Rightarrow> (error + Transaction) \<times> world" where
  "Deposit env walletID amount description w =
     (if f64_le_zero amount then (Inl (ErrorsNew ''amount must be positive''), w)
      else
        let amountInMinorUnits = DollarsToMinorUnits (oor env) amount
        in case db_Transaction env 4
                  (Deposit_body env walletID amountInMinorUnits description) w of
             (Inl err, w1) \<Rightarrow> (Inl err, w1)
           | (Inr transaction, w1) \<Rightarrow>
               (Inr transaction,
                invalidateTransactionCache env 1 walletID
                  (invalidateWalletCache env 0 walletID w1)))"

text \<open>
  The body of the storage transaction of \<open>Transfer\<close>: storage calls 1 and 2 (locking
  reads of source and destination), 3 and 4 (balance updates), 5 and 6 (record inserts).
  The comparison of the balance with the amount is the signed one of \<open>int64\<close>.
\<close>

definition Transfer_body ::
  "env \<Rightarrow> nat \<Rightarrow> nat \<Rightarrow> int64 \<Rightarrow> string \<Rightarrow> world \<Rightarrow> (error + Transaction) \<times> world" where
  "Transfer_body env fromWalletID toWalletID amountInMinorUnits description tx =
     (case First_for_update env 1 fromWalletID tx of
        (Inl err, tx1) \<Rightarrow>
          if err = ErrRecordNotFound then (Inl (ErrorsNew ''source wallet not found''), tx1)
          else (Inl err, tx1)
      | (Inr fromWallet, tx1) \<Rightarrow>
     (case First_for_update env 2 toWalletID tx1 of
        (Inl err, tx2) \<Rightarrow>
          if err = ErrRecordNotFound then (Inl (ErrorsNew ''destination wallet not found''), tx2)
          else (Inl err, tx2)
      | (Inr toWallet, tx2) \<Rightarrow>
          if sint (Balance fromWallet) < sint amountInMinorUnits
          then (Inl (ErrorsNew ''insufficient balance''), tx2)
          else
            let fromOldBalance = Balance fromWallet;
                fromNewBalance = fromOldBalance - amountInMinorUnits;
                toOldBalance = Balance toWallet;
                toNewBalance = toOldBalance + amountInMinorUnits
            in case Update_balance env 3 (wallet_ID fromWallet) fromNewBalance tx2 of
                 (Some err, tx3) \<Rightarrow> (Inl err, tx3)
               | (None, tx3) \<Rightarrow>
            (case Update_balance env 4 (wallet_ID toWallet) toNewBalance tx3 of
                 (Some err, tx4) \<Rightarrow> (Inl err, tx4)
               | (None, tx4) \<Rightarrow>
                   let fromTransaction =
                         \<lparr>tx_ID = 0,
                          WalletID = fromWalletID,
                          Type = TransactionTypeTransfer,
                          Amount = - amountInMinorUnits,
                          BalanceBefore = fromOldBalance,
                          BalanceAfter = fromNewBalance,
                          FromWalletID = Some fromWalletID,
                          ToWalletID = Some toWalletID,
                          TransactionUUID = new_uuid env 0,
                          Description = description,
                          CreatedAt = 0\<rparr>;
                       toTransaction =
                         \<lparr>tx_ID = 0,
                          WalletID = toWalletID,
                          Type = TransactionTypeTransfer,
                          Amount = amountInMinorUnits,
                          BalanceBefore = toOldBalance,
                          BalanceAfter = toNewBalance,
                          FromWalletID = Some fromWalletID,
                          ToWalletID = Some toWalletID,
                          TransactionUUID = new_uuid env 1,
                          Description = description,
                          CreatedAt = 0\<rparr>
                   in case Create_transaction env 5 fromTransaction tx4 of
                        (Inl err, tx5) \<Rightarrow> (Inl err, tx5)
                      | (Inr fromRow, tx5) \<Rightarrow>
                          (case Create_transaction env 6 toTransaction tx5 of
                             (Inl err, tx6) \<Rightarrow> (Inl err, tx6)
                           | (Inr toRow, tx6) \<Rightarrow> (Inr fromRow, tx6)))))"

definition Transfer ::
  "env \<Rightarrow> nat \<Rightarrow> nat \<Rightarrow> float64 \<Rightarrow> string \<Rightarrow> world \<Rightarrow> (error + Transaction) \<times> world" where
  "Transfer env fromWalletID toWalletID amount description w =
     (if f64_le_zero amount then (Inl (ErrorsNew ''amount must be positive''), w)
      else if fromWalletID = toWalletID
      then (Inl (ErrorsNew ''cannot transfer to the same wallet''), w)
      else
        let amountInMinorUnits = DollarsToMinorUnits (oor env) amount
        in case db_Transaction env 7
                  (Transfer_body env fromWalletID toWalletID amountInMinorUnits description) w of
             (Inl err, w1) \<Rightarrow> (Inl err, w1)
           | (Inr fromTransaction, w1) \<Rightarrow>
               (Inr fromTransaction,
                invalidateTransactionCache env 3 toWalletID
                  (invalidateTransactionCache env 2 fromWalletID
                     (invalidateWalletCache env 1 toWalletID
                        (invalidateWalletCache env 0 fromWalletID w1)))))"

definition GetTransactions ::
  "env \<Rightarrow> nat \<Rightarrow> int \<Rightarrow> int \<Rightarrow> world \<Rightarrow> (error + Transaction list) \<times> world" where
  "GetTransactions env walletID limit offset w =
     (let cacheKey = transactions_cacheKey walletID limit offset;
          (cached, w1) = redis_Get env 0 cacheKey w
      in case (case cached of
                 None \<Rightarrow> None
               | Some text \<Rightarrow> json_Unmarshal_transactions env text) of
           Some txs \<Rightarrow> (Inr txs, w1)
         | None \<Rightarrow>
             (case GetByWalletID env 0 walletID limit offset w1 of
                (Inl err, w2) \<Rightarrow> (Inl err, w2)
              | (Inr txs, w2) \<Rightarrow>
                  (case json_Marshal_transactions env txs of
                     None \<Rightarrow> (Inr txs, w2)
                   | Some transactionsJSON \<Rightarrow>
                       (Inr txs, redis_Set env 1 cacheKey transactionsJSON (2 * 60) w2))))"


section \<open>Observations on worlds and runs\<close>

text \<open>The balance of a wallet as a read by primary key finds it.\<close>

definition balance_of :: "world \<Rightarrow> nat \<Rightarrow> int64 option" where
  "balance_of w pk = map_option Balance (find (\<lambda>r. wallet_ID r = pk) (wallets (db w)))"

text \<open>No wallet of the store has a negative balance.\<close>

definition balances_nonneg :: "world \<Rightarrow> bool" where
  "balances_nonneg w = list_all (\<lambda>r. 0 \<le> sint (Balance r)) (wallets (db w))"

text \<open>
  The balance-changing calls of the engine, and a run: a sequence of calls, each with
  what it takes from outside. A call that fails leaves the world it returns.
\<close>

datatype call =
  CallCreateWallet nat
  | CallDeposit nat float64 string
  | CallTransfer nat nat float64 string

fun perform :: "env \<Rightarrow> call \<Rightarrow> world \<Rightarrow> world" where
  "perform env (CallCreateWallet userID) w = snd (CreateWallet env userID w)"
| "perform env (CallDeposit walletID amount description) w =
     snd (Deposit env walletID amount description w)"
| "perform env (CallTransfer fromWalletID toWalletID amount description) w =
     snd (Transfer env fromWalletID toWalletID amount description w)"

fun run :: "(env \<times> call) list \<Rightarrow> world \<Rightarrow> world" where
  "run [] w = w"
| "run ((env, c) # cs) w = run cs (perform env c w)"

text \<open>
  A credit stays inside \<open>int64\<close>: the converted amount is not negative, and the balance
  of the wallet to be credited plus the amount is below \<open>2^63\<close>.
\<close>

definition credit_fits :: "env \<Rightarrow> nat \<Rightarrow> float64 \<Rightarrow> world \<Rightarrow> bool" where
  "credit_fits env walletID amount w =
     (let m = DollarsToMinorUnits (oor env) amount
      in 0 \<le> sint m \<and>
         (case balance_of w walletID of
            None \<Rightarrow> True
          | Some b \<Rightarrow> sint b + sint m < 2 ^ 63))"

fun call_fits :: "env \<Rightarrow> call \<Rightarrow> world \<Rightarrow> bool" where
  "call_fits env (CallCreateWallet userID) w = True"
| "call_fits env (CallDeposit walletID amount description) w = credit_fits env walletID amount w"
| "call_fits env (CallTransfer fromWalletID toWalletID amount description) w =
     credit_fits env toWalletID amount w"

fun run_fits :: "(env \<times> call) list \<Rightarrow> world \<Rightarrow> bool" where
  "run_fits [] w = True"
| "run_fits ((env, c) # cs) w = (call_fits env c w \<and> run_fits cs (perform env c w))"

text \<open>The rows on which a trace takes an exclusive lock, in the order of the locking reads.\<close>

fun locked_row :: "event \<Rightarrow> nat option" where
  "locked_row (SelectForUpdate pk) = Some pk"
| "locked_row ev = None"

definition lock_order :: "event list \<Rightarrow> nat list" where
  "lock_order tr = List.map_filter locked_row tr"

text \<open>Orders of a history page: newest first, with and without equal creation times.\<close>

definition newest_first :: "Transaction list \<Rightarrow> bool" where
  "newest_first rows = sorted_wrt (\<lambda>a b. CreatedAt b \<le> CreatedAt a) rows"

definition strictly_newest_first :: "Transaction list \<Rightarrow> bool" where
  "strictly_newest_first rows = sorted_wrt (\<lambda>a b. CreatedAt b < CreatedAt a) rows"

section \<open>Sample inputs\<close>

text \<open>
  An environment without faults, and variants of it; a store with one account and two
  wallets holding 125.25 and 50.25; the amounts 0.004, 75.25, 1000.00 and 5e16 as
  \<open>float64\<close> bit patterns.
\<close>

definition sample_env :: env where
  "sample_env =
     \<lparr>oor = amd64_oor,
      storage_fault = (\<lambda>i. None),
      redis_fault = (\<lambda>i. False),
      new_uuid = (\<lambda>i. if i = 0 then ''uuid-a'' else ''uuid-b''),
      clock = (\<lambda>i. 1000),
      tie_rank = tx_ID,
      json_Marshal_wallet = (\<lambda>r. ''wallet-json''),
      json_Unmarshal_wallet = (\<lambda>text. None),
      json_Marshal_transactions = (\<lambda>rows. Some ''transactions-json''),
      json_Unmarshal_transactions = (\<lambda>text. None)\<rparr>"

definition sample_env2 :: env where
  "sample_env2 = sample_env\<lparr>new_uuid := (\<lambda>i. if i = 0 then ''uuid-c'' else ''uuid-d'')\<rparr>"

definition sample_db :: database where
  "sample_db =
     \<lparr>users = [1],
      wallets = [\<lparr>wallet_ID = 1, UserID = 1, Balance = 12525\<rparr>,
                 \<lparr>wallet_ID = 2, UserID = 1, Balance = 5025\<rparr>],
      transactions = []\<rparr>"

definition sample_world :: world where
  "sample_world = \<lparr>db = sample_db, cache = Map.empty, trace = []\<rparr>"

definition empty_world :: world where
  "empty_world = \<lparr>db = \<lparr>users = [1], wallets = [], transactions = []\<rparr>,
                   cache = Map.empty, trace = []\<rparr>"

definition amount_0_004 :: float64 where
  "amount_0_004 = 0x3F70624DD2F1A9FC"

definition amount_75_25 :: float64 where
  "amount_75_25 = 0x4052D00000000000"

definition amount_1000 :: float64 where
  "amount_1000 = 0x408F400000000000"

definition amount_5e16 :: float64 where
  "amount_5e16 = 0x4366345785D8A000"

definition sample_deposit_row :: Transaction where
  "sample_deposit_row =
     \<lparr>tx_ID = 1, WalletID = 1, Type = TransactionTypeDeposit, Amount = 7525,
      BalanceBefore = 12525, BalanceAfter = 20050, FromWalletID = None, ToWalletID = None,
      TransactionUUID = ''uuid-a'', Description = [], CreatedAt = 1000\<rparr>"

definition sample_debit_row :: Transaction where
  "sample_debit_row =
     \<lparr>tx_ID = 1, WalletID = 1, Type = TransactionTypeTransfer, Amount = - 7525,
      BalanceBefore = 12525, BalanceAfter = 5000, FromWalletID = Some 1, ToWalletID = Some 2,
      TransactionUUID = ''uuid-a'', Description = [], CreatedAt = 1000\<rparr>"

definition sample_credit_row :: Transaction where
  "sample_credit_row =
     \<lparr>tx_ID = 2, WalletID = 2, Type = TransactionTypeTransfer, Amount = 7525,
      BalanceBefore = 5025, BalanceAfter = 12550, FromWalletID = Some 1, ToWalletID = Some 2,
      TransactionUUID = ''uuid-b'', Description = [], CreatedAt = 1000\<rparr>"

definition faulty_env :: env where
  "faulty_env =
     sample_env\<lparr>storage_fault := (\<lambda>i. if i = 2 then Some (ErrStorage ''connection lost'') else None)\<rparr>"

definition amount_50_25 :: float64 where
  "amount_50_25 = 0x4049200000000000"

text \<open>The run of three calls that ends with a negative balance.\<close>

definition overflow_run :: "(env \<times> call) list" where
  "overflow_run =
     [(sample_env, CallCreateWallet 1),
      (sample_env, CallDeposit 1 amount_5e16 []),
      (sample_env2, CallDeposit 1 amount_5e16 [])]"

definition sample_run :: "(env \<times> call) list" where
  "sample_run =
     [(sample_env, CallDeposit 1 amount_75_25 []),
      (sample_env2, CallTransfer 1 2 amount_75_25 [])]"

text \<open>The number a decimal digit stands for.\<close>

definition digit_val :: "char \<Rightarrow> nat" where
  "digit_val c = of_char c - 48"

text \<open>
  Two deposits on wallet 1 within one tick of the clock, and a storage that returns
  rows of equal creation time newest key first.
\<close>

definition tied_run :: "(env \<times> call) list" where
  "tied_run =
     [(sample_env, CallDeposit 1 amount_75_25 []),
      (sample_env2, CallDeposit 1 amount_50_25 [])]"

definition tied_world :: world where
  "tied_world = run tied_run sample_world"

definition second_deposit_row :: Transaction where
  "second_deposit_row =
     \<lparr>tx_ID = 2, WalletID = 1, Type = TransactionTypeDeposit, Amount = 5025,
      BalanceBefore = 20050, BalanceAfter = 25075, FromWalletID = None, ToWalletID = None,
      TransactionUUID = ''uuid-c'', Description = [], CreatedAt = 1000\<rparr>"

definition reverse_env :: env where
  "reverse_env = sample_env\<lparr>tie_rank := (\<lambda>t. 2 - tx_ID t)\<rparr>"

text \<open>A cache that holds a stale copy of wallet 1, and a codec that can read it.\<close>

definition cached_wallet :: Wallet where
  "cached_wallet = \<lparr>wallet_ID = 1, UserID = 1, Balance = 99\<rparr>"

definition codec_env :: env where
  "codec_env =
     sample_env\<lparr>json_Unmarshal_wallet :=
       (\<lambda>text. if text = ''cached-wallet'' then Some cached_wallet else None)\<rparr>"

definition cached_world :: world where
  "cached_world = sample_world\<lparr>cache := [''wallet:1'' \<mapsto> (''cached-wallet'', 300)]\<rparr>"





text \<open>The two records of the run that overflows the balance.\<close>

definition first_overflow_row :: Transaction where
  "first_overflow_row =
     \<lparr>tx_ID = 1, WalletID = 1, Type = TransactionTypeDeposit, Amount = 5000000000000000000,
      BalanceBefore = 0, BalanceAfter = 5000000000000000000, FromWalletID = None,
      ToWalletID = None, TransactionUUID = ''uuid-a'', Description = [], CreatedAt = 1000\<rparr>"

definition second_overflow_row :: Transaction where
  "second_overflow_row =
     \<lparr>tx_ID = 2, WalletID = 1, Type = TransactionTypeDeposit, Amount = 5000000000000000000,
      BalanceBefore = 5000000000000000000, BalanceAfter = 10000000000000000000,
      FromWalletID = None, ToWalletID = None, TransactionUUID = ''uuid-c'', Description = [],
      CreatedAt = 1000\<rparr>"

section \<open>Evaluation of the money conversion\<close>

lemmas f64_defs =
  DollarsToMinorUnits_def f64_decode_def f64_exp_def f64_frac_def f64_sign_def
  round_f64_def f64_le_zero_def Let_def

lemmas storage_defs =
  First_for_update_def Update_balance_def Create_transaction_def db_Transaction_def
  userRepo_GetByID_def walletRepo_Create_def walletRepo_GetByID_def GetByWalletID_def log_def

lemmas cache_defs =
  redis_Get_def redis_Set_def redis_Del_def redis_ScanDel_def
  invalidateWalletCache_def invalidateUserCache_def invalidateTransactionCache_def

lemmas sample_defs =
  sample_env_def sample_env2_def sample_db_def sample_world_def empty_world_def

lemmas engine_defs =
  CreateWallet_def Deposit_def Deposit_body_def Transfer_def Transfer_body_def
  set_balance_def

lemma minor_units_0_004: "DollarsToMinorUnits cv amount_0_004 = 0"
  by (simp add: f64_defs bitlen.simps amount_0_004_def)

lemma positive_0_004: "\<not> f64_le_zero amount_0_004"
  by (simp add: f64_defs amount_0_004_def)

lemma minor_units_75_25: "DollarsToMinorUnits cv amount_75_25 = 7525"
  by (simp add: f64_defs bitlen.simps amount_75_25_def)

lemma positive_75_25: "\<not> f64_le_zero amount_75_25"
  by (simp add: f64_defs amount_75_25_def)

lemma minor_units_50_25: "DollarsToMinorUnits cv amount_50_25 = 5025"
  by (simp add: f64_defs bitlen.simps amount_50_25_def)

lemma positive_50_25: "\<not> f64_le_zero amount_50_25"
  by (simp add: f64_defs amount_50_25_def)

lemma minor_units_1000: "DollarsToMinorUnits cv amount_1000 = 100000"
  by (simp add: f64_defs bitlen.simps amount_1000_def)


lemma minor_units_5e16: "DollarsToMinorUnits cv amount_5e16 = 5000000000000000000"
  by (simp add: f64_defs bitlen.simps amount_5e16_def)

lemma positive_5e16: "\<not> f64_le_zero amount_5e16"
  by (simp add: f64_defs amount_5e16_def)

section \<open>The storage transaction\<close>

lemma find_wallet_ID:
  "find (\<lambda>r. wallet_ID r = pk) rows = Some r \<Longrightarrow> wallet_ID r = pk"
  by (induction rows) (auto split: if_splits)

lemma find_set_balance:
  "find (\<lambda>r. wallet_ID r = k) (map (set_balance pk b) rows) =
     map_option (set_balance pk b) (find (\<lambda>r. wallet_ID r = k) rows)"
  by (induction rows) (auto simp: set_balance_def)

lemma db_Transaction_Inl:
  "db_Transaction env c body w = (Inl e, w') \<Longrightarrow> db w' = db w"
  by (auto simp: db_Transaction_def log_def split: option.splits prod.splits sum.splits)

lemma db_Transaction_Inr:
  "db_Transaction env c body w = (Inr v, w') \<Longrightarrow>
     \<exists>w1. body (log Begin w) = (Inr v, w1) \<and> w' = log Commit w1"
  by (auto simp: db_Transaction_def split: option.splits prod.splits sum.splits)

lemma db_log [simp]: "db (log ev w) = db w"
  by (simp add: log_def)

lemma cache_log [simp]: "cache (log ev w) = cache w"
  by (simp add: log_def)

lemma trace_log [simp]: "trace (log ev w) = trace w @ [ev]"
  by (simp add: log_def)

lemma db_invalidateWalletCache [simp]: "db (invalidateWalletCache env i k w) = db w"
  by (simp add: cache_defs log_def Let_def)

lemma db_invalidateTransactionCache [simp]: "db (invalidateTransactionCache env i k w) = db w"
  by (simp add: cache_defs log_def Let_def)

lemma db_invalidateUserCache [simp]: "db (invalidateUserCache env i k w) = db w"
  by (simp add: cache_defs log_def Let_def)

section \<open>Deposit\<close>

lemma Deposit_body_Inr:
  assumes "Deposit_body env walletID m description tx = (Inr t, tx')"
  shows "\<exists>r. find (\<lambda>r. wallet_ID r = walletID) (wallets (db tx)) = Some r \<and>
           WalletID t = walletID \<and> Type t = TransactionTypeDeposit \<and> Amount t = m \<and>
           BalanceBefore t = Balance r \<and> BalanceAfter t = Balance r + m \<and>
           TransactionUUID t \<notin> set (map TransactionUUID (transactions (db tx))) \<and>
           wallets (db tx') = map (set_balance walletID (Balance r + m)) (wallets (db tx)) \<and>
           transactions (db tx') = transactions (db tx) @ [t] \<and>
           users (db tx') = users (db tx)"
  using assms
  apply (simp add: Deposit_body_def First_for_update_def Update_balance_def Create_transaction_def
        log_def Let_def split: option.splits if_splits)
  apply (auto dest: find_wallet_ID)
  done

lemma Deposit_Inr:
  assumes "Deposit env walletID amount description w = (Inr t, w')"
  shows "\<not> f64_le_zero amount \<and>
         (\<exists>w1. Deposit_body env walletID (DollarsToMinorUnits (oor env) amount) description
                  (log Begin w) = (Inr t, w1) \<and> db w' = db w1)"
  using assms
  by (auto simp: Deposit_def Let_def split: if_splits prod.splits sum.splits
        dest!: db_Transaction_Inr)

lemma Deposit_Inl:
  assumes "Deposit env walletID amount description w = (Inl e, w')"
  shows "db w' = db w"
  using assms
  by (auto simp: Deposit_def Let_def split: if_splits prod.splits sum.splits
        dest: db_Transaction_Inl)

section \<open>Transfer\<close>

lemma First_for_update_Inr:
  "First_for_update env i pk w = (Inr r, w') \<longleftrightarrow>
     storage_fault env i = None \<and> find (\<lambda>r. wallet_ID r = pk) (wallets (db w)) = Some r \<and>
     wallet_ID r = pk \<and> w' = log (SelectForUpdate pk) w"
  by (auto simp: First_for_update_def Let_def split: option.splits dest: find_wallet_ID)

lemma Transfer_body_Inr:
  assumes "Transfer_body env f t m description tx = (Inr r, tx')"
  shows "\<exists>fw tw r2.
           find (\<lambda>r. wallet_ID r = f) (wallets (db tx)) = Some fw \<and>
           find (\<lambda>r. wallet_ID r = t) (wallets (db tx)) = Some tw \<and>
           \<not> sint (Balance fw) < sint m \<and>
           WalletID r = f \<and> Type r = TransactionTypeTransfer \<and> Amount r = - m \<and>
           BalanceBefore r = Balance fw \<and> BalanceAfter r = Balance fw - m \<and>
           FromWalletID r = Some f \<and> ToWalletID r = Some t \<and>
           WalletID r2 = t \<and> Type r2 = TransactionTypeTransfer \<and> Amount r2 = m \<and>
           BalanceBefore r2 = Balance tw \<and> BalanceAfter r2 = Balance tw + m \<and>
           FromWalletID r2 = Some f \<and> ToWalletID r2 = Some t \<and>
           TransactionUUID r \<noteq> TransactionUUID r2 \<and>
           TransactionUUID r \<notin> set (map TransactionUUID (transactions (db tx))) \<and>
           TransactionUUID r2 \<notin> set (map TransactionUUID (transactions (db tx))) \<and>
           wallets (db tx') =
             map (set_balance t (Balance tw + m))
               (map (set_balance f (Balance fw - m)) (wallets (db tx))) \<and>
           transactions (db tx') = transactions (db tx) @ [r, r2] \<and>
           users (db tx') = users (db tx)"
  using assms
  by (auto simp: Transfer_body_def First_for_update_Inr Update_balance_def Create_transaction_def
        Let_def split: prod.splits sum.splits option.splits if_splits)

lemma Transfer_Inr:
  assumes "Transfer env f t amount description w = (Inr r, w')"
  shows "\<not> f64_le_zero amount \<and> f \<noteq> t \<and>
         (\<exists>w1. Transfer_body env f t (DollarsToMinorUnits (oor env) amount) description
                  (log Begin w) = (Inr r, w1) \<and> db w' = db w1)"
  using assms
  by (auto simp: Transfer_def Let_def split: if_splits prod.splits sum.splits
        dest!: db_Transaction_Inr)

lemma Transfer_Inl:
  assumes "Transfer env f t amount description w = (Inl e, w')"
  shows "db w' = db w"
  using assms
  by (auto simp: Transfer_def Let_def split: if_splits prod.splits sum.splits
        dest: db_Transaction_Inl)

section \<open>Balances and records\<close>

lemma balance_of_set_balance:
  "find (\<lambda>r. wallet_ID r = pk) rows = Some r \<Longrightarrow>
   map_option Balance (find (\<lambda>r. wallet_ID r = pk) (map (set_balance pk b) rows)) = Some b"
  by (frule find_wallet_ID) (simp add: find_set_balance set_balance_def)

lemma balance_of_set_balance_other:
  "k \<noteq> pk \<Longrightarrow>
   map_option Balance (find (\<lambda>r. wallet_ID r = k) (map (set_balance pk b) rows)) =
   map_option Balance (find (\<lambda>r. wallet_ID r = k) rows)"
  by (cases "find (\<lambda>r. wallet_ID r = k) rows")
     (auto simp: find_set_balance set_balance_def dest: find_wallet_ID)

lemma Deposit_record:
  assumes "Deposit env walletID amount description w = (Inr t, w')"
  shows "BalanceAfter t = BalanceBefore t + Amount t \<and>
         balance_of w walletID = Some (BalanceBefore t) \<and>
         balance_of w' walletID = Some (BalanceAfter t) \<and>
         transactions (db w') = transactions (db w) @ [t]"
proof -
  from Deposit_Inr [OF assms] obtain w1 where
    body: "Deposit_body env walletID (DollarsToMinorUnits (oor env) amount) description
             (log Begin w) = (Inr t, w1)" and db: "db w' = db w1"
    by blast
  from Deposit_body_Inr [OF body] obtain r where
    r: "find (\<lambda>r. wallet_ID r = walletID) (wallets (db w)) = Some r" and
    t: "Amount t = DollarsToMinorUnits (oor env) amount" "BalanceBefore t = Balance r"
       "BalanceAfter t = Balance r + DollarsToMinorUnits (oor env) amount" and
    w1: "wallets (db w1) =
           map (set_balance walletID (Balance r + DollarsToMinorUnits (oor env) amount))
             (wallets (db w))"
        "transactions (db w1) = transactions (db w) @ [t]"
    by auto
  show ?thesis
    using r t w1 db by (simp add: balance_of_def balance_of_set_balance)
qed

lemma Transfer_records:
  assumes "Transfer env f t amount description w = (Inr r, w')"
  shows "\<exists>r2. transactions (db w') = transactions (db w) @ [r, r2] \<and>
           BalanceAfter r = BalanceBefore r + Amount r \<and>
           BalanceAfter r2 = BalanceBefore r2 + Amount r2 \<and>
           balance_of w f = Some (BalanceBefore r) \<and>
           balance_of w' f = Some (BalanceAfter r) \<and>
           balance_of w t = Some (BalanceBefore r2) \<and>
           balance_of w' t = Some (BalanceAfter r2)"
proof -
  let ?m = "DollarsToMinorUnits (oor env) amount"
  from Transfer_Inr [OF assms] obtain w1 where
    ne: "f \<noteq> t" and
    body: "Transfer_body env f t ?m description (log Begin w) = (Inr r, w1)" and
    db: "db w' = db w1"
    by blast
  from Transfer_body_Inr [OF body] obtain fw tw r2 where
    fw: "find (\<lambda>r. wallet_ID r = f) (wallets (db w)) = Some fw" and
    tw: "find (\<lambda>r. wallet_ID r = t) (wallets (db w)) = Some tw" and
    r: "Amount r = - ?m" "BalanceBefore r = Balance fw" "BalanceAfter r = Balance fw - ?m" and
    r2: "Amount r2 = ?m" "BalanceBefore r2 = Balance tw" "BalanceAfter r2 = Balance tw + ?m" and
    ws: "wallets (db w1) =
           map (set_balance t (Balance tw + ?m))
             (map (set_balance f (Balance fw - ?m)) (wallets (db w)))" and
    ts: "transactions (db w1) = transactions (db w) @ [r, r2]"
    by auto
  have ids: "wallet_ID fw = f" "wallet_ID tw = t"
    using fw tw by (auto dest: find_wallet_ID)
  have "balance_of w' f = Some (Balance fw - ?m)"
    unfolding balance_of_def db ws find_set_balance
    using ne fw ids by (simp add: set_balance_def)
  moreover have "balance_of w' t = Some (Balance tw + ?m)"
    unfolding balance_of_def db ws find_set_balance
    using ne tw ids by (simp add: set_balance_def)
  moreover have "balance_of w f = Some (Balance fw)" "balance_of w t = Some (Balance tw)"
    using fw tw by (simp_all add: balance_of_def)
  ultimately show ?thesis
    using r r2 ts db by (intro exI [of _ r2]) simp
qed

section \<open>Failed calls leave the cache alone\<close>


lemma Deposit_body_cache:
  "Deposit_body env walletID m description tx = (res, tx') \<Longrightarrow> cache tx' = cache tx"
  by (auto simp: Deposit_body_def First_for_update_def Update_balance_def Create_transaction_def
        log_def Let_def split: option.splits if_splits)

lemma db_Transaction_Inl_cache:
  assumes "db_Transaction env c body w = (Inl e, w')"
    and "\<And>res tx'. body (log Begin w) = (res, tx') \<Longrightarrow> cache tx' = cache w"
  shows "cache w' = cache w"
  using assms
  by (auto simp: db_Transaction_def log_def split: option.splits prod.splits sum.splits)


lemma Deposit_Inl_cache:
  assumes "Deposit env walletID amount description w = (Inl e, w')"
  shows "cache w' = cache w"
proof (cases "f64_le_zero amount")
  case True
  with assms show ?thesis by (auto simp: Deposit_def split: if_splits)
next
  case False
  with assms have
    "db_Transaction env 4
       (Deposit_body env walletID (DollarsToMinorUnits (oor env) amount) description) w = (Inl e, w')"
    by (auto simp: Deposit_def Let_def split: prod.splits sum.splits)
  then show ?thesis
    by (rule db_Transaction_Inl_cache) (auto dest: Deposit_body_cache)
qed

section \<open>Outcomes of Deposit\<close>

lemma Deposit_succeeds:
  assumes "\<not> f64_le_zero amount"
    and "storage_fault env 0 = None" and "storage_fault env 1 = None"
    and "storage_fault env 2 = None" and "storage_fault env 3 = None"
    and "storage_fault env 4 = None"
    and "balance_of w walletID = Some b"
    and "new_uuid env 0 \<notin> set (map TransactionUUID (transactions (db w)))"
  shows "\<exists>t w'. Deposit env walletID amount description w = (Inr t, w')"
  using assms
  by (auto simp: Deposit_def Deposit_body_def db_Transaction_def First_for_update_def
        Update_balance_def Create_transaction_def balance_of_def log_def Let_def)

lemma Deposit_wallet_absent:
  assumes "\<not> f64_le_zero amount"
    and "storage_fault env 0 = None" and "storage_fault env 1 = None"
    and "balance_of w walletID = None"
  shows "fst (Deposit env walletID amount description w) = Inl ErrRecordNotFound"
  using assms
  by (auto simp: Deposit_def Deposit_body_def db_Transaction_def First_for_update_def
        balance_of_def log_def Let_def)

lemma Deposit_fault_0:
  "\<not> f64_le_zero amount \<Longrightarrow> storage_fault env 0 = Some e \<Longrightarrow>
   fst (Deposit env walletID amount description w) = Inl e"
  by (simp add: Deposit_def db_Transaction_def Let_def)

lemma Deposit_fault_1:
  "\<not> f64_le_zero amount \<Longrightarrow> storage_fault env 0 = None \<Longrightarrow> storage_fault env 1 = Some e \<Longrightarrow>
   fst (Deposit env walletID amount description w) = Inl e"
  by (simp add: Deposit_def Deposit_body_def db_Transaction_def First_for_update_def Let_def)

lemma Deposit_fault_2:
  "\<not> f64_le_zero amount \<Longrightarrow> storage_fault env 0 = None \<Longrightarrow> storage_fault env 1 = None \<Longrightarrow>
   storage_fault env 2 = Some e \<Longrightarrow> balance_of w walletID = Some b \<Longrightarrow>
   fst (Deposit env walletID amount description w) = Inl e"
  by (auto simp: Deposit_def Deposit_body_def db_Transaction_def First_for_update_def
        Update_balance_def balance_of_def log_def Let_def)

lemma Deposit_fault_3:
  "\<not> f64_le_zero amount \<Longrightarrow> storage_fault env 0 = None \<Longrightarrow> storage_fault env 1 = None \<Longrightarrow>
   storage_fault env 2 = None \<Longrightarrow> storage_fault env 3 = Some e \<Longrightarrow>
   balance_of w walletID = Some b \<Longrightarrow>
   fst (Deposit env walletID amount description w) = Inl e"
  by (auto simp: Deposit_def Deposit_body_def db_Transaction_def First_for_update_def
        Update_balance_def Create_transaction_def balance_of_def log_def Let_def)

lemma Deposit_fault_4:
  "\<not> f64_le_zero amount \<Longrightarrow> storage_fault env 0 = None \<Longrightarrow> storage_fault env 1 = None \<Longrightarrow>
   storage_fault env 2 = None \<Longrightarrow> storage_fault env 3 = None \<Longrightarrow>
   storage_fault env 4 = Some e \<Longrightarrow> balance_of w walletID = Some b \<Longrightarrow>
   new_uuid env 0 \<notin> set (map TransactionUUID (transactions (db w))) \<Longrightarrow>
   fst (Deposit env walletID amount description w) = Inl e"
  by (auto simp: Deposit_def Deposit_body_def db_Transaction_def First_for_update_def
        Update_balance_def Create_transaction_def balance_of_def log_def Let_def)

section \<open>Balances stay non-negative while credits fit\<close>

lemma sint_add_in_range:
  fixes a b :: int64
  assumes "0 \<le> sint a" and "0 \<le> sint b" and "sint a + sint b < 2 ^ 63"
  shows "sint (a + b) = sint a + sint b"
proof -
  have "sint (a + b) = signed_take_bit (LENGTH(64) - 1) (sint a + sint b)"
    by (rule sint_word_ariths)
  also have "\<dots> = sint a + sint b"
    using assms by (intro signed_take_bit_int_eq_self) simp_all
  finally show ?thesis .
qed

lemma sint_sub_in_range:
  fixes a b :: int64
  assumes "0 \<le> sint b" and "sint b \<le> sint a"
  shows "sint (a - b) = sint a - sint b"
proof -
  have lt: "sint a < 2 ^ 63"
    using sint_lt [of a] by simp
  have "sint (a - b) = signed_take_bit (LENGTH(64) - 1) (sint a - sint b)"
    by (rule sint_word_ariths)
  also have "\<dots> = sint a - sint b"
    using assms lt by (intro signed_take_bit_int_eq_self) simp_all
  finally show ?thesis .
qed

lemma find_in_set:
  "find P rows = Some r \<Longrightarrow> r \<in> set rows"
  by (induction rows) (auto split: if_splits)

lemma balances_nonneg_set_balance:
  assumes "list_all (\<lambda>r. 0 \<le> sint (Balance r)) rows" and "0 \<le> sint b"
  shows "list_all (\<lambda>r. 0 \<le> sint (Balance r)) (map (set_balance pk b) rows)"
  using assms by (induction rows) (auto simp: set_balance_def)

lemma CreateWallet_wallets:
  "CreateWallet env userID w = (res, w') \<Longrightarrow>
     wallets (db w') = wallets (db w) \<or>
     (\<exists>row. res = Inr row \<and> Balance row = 0 \<and> wallets (db w') = wallets (db w) @ [row])"
  by (auto simp: CreateWallet_def userRepo_GetByID_def walletRepo_Create_def log_def Let_def
        split: option.splits if_splits)

lemma CreateWallet_preserves:
  assumes "balances_nonneg w"
  shows "balances_nonneg (snd (CreateWallet env userID w))"
proof -
  obtain res w' where c: "CreateWallet env userID w = (res, w')"
    by (cases "CreateWallet env userID w")
  from CreateWallet_wallets [OF c] assms show ?thesis
    by (auto simp: c balances_nonneg_def)
qed

lemma Deposit_preserves:
  assumes "balances_nonneg w" and "credit_fits env walletID amount w"
  shows "balances_nonneg (snd (Deposit env walletID amount description w))"
proof -
  let ?m = "DollarsToMinorUnits (oor env) amount"
  obtain res w' where d: "Deposit env walletID amount description w = (res, w')"
    by (cases "Deposit env walletID amount description w")
  show ?thesis
  proof (cases res)
    case (Inl e)
    with d Deposit_Inl [of env walletID amount description w e w'] assms(1)
    show ?thesis by (simp add: balances_nonneg_def)
  next
    case (Inr t)
    with d Deposit_Inr [of env walletID amount description w t w'] obtain w1 where
      body: "Deposit_body env walletID ?m description (log Begin w) = (Inr t, w1)"
      and db: "db w' = db w1"
      by blast
    from Deposit_body_Inr [OF body] obtain r where
      r: "find (\<lambda>r. wallet_ID r = walletID) (wallets (db w)) = Some r" and
      ws: "wallets (db w1) = map (set_balance walletID (Balance r + ?m)) (wallets (db w))"
      by auto
    from r assms(1) have nn: "0 \<le> sint (Balance r)"
      by (auto simp: balances_nonneg_def list_all_iff dest: find_in_set)
    from r assms(2) have m: "0 \<le> sint ?m" "sint (Balance r) + sint ?m < 2 ^ 63"
      by (simp_all add: credit_fits_def balance_of_def Let_def)
    from nn m have "0 \<le> sint (Balance r + ?m)"
      by (simp add: sint_add_in_range)
    with assms(1) show ?thesis
      by (simp add: d balances_nonneg_def db ws balances_nonneg_set_balance)
  qed
qed

lemma Transfer_preserves:
  assumes "balances_nonneg w" and "credit_fits env t amount w"
  shows "balances_nonneg (snd (Transfer env f t amount description w))"
proof -
  let ?m = "DollarsToMinorUnits (oor env) amount"
  obtain res w' where d: "Transfer env f t amount description w = (res, w')"
    by (cases "Transfer env f t amount description w")
  show ?thesis
  proof (cases res)
    case (Inl e)
    with d Transfer_Inl [of env f t amount description w e w'] assms(1)
    show ?thesis by (simp add: balances_nonneg_def)
  next
    case (Inr r)
    with d Transfer_Inr [of env f t amount description w r w'] obtain w1 where
      body: "Transfer_body env f t ?m description (log Begin w) = (Inr r, w1)"
      and db: "db w' = db w1"
      by blast
    from Transfer_body_Inr [OF body] obtain fw tw where
      fw: "find (\<lambda>r. wallet_ID r = f) (wallets (db w)) = Some fw" and
      tw: "find (\<lambda>r. wallet_ID r = t) (wallets (db w)) = Some tw" and
      enough: "\<not> sint (Balance fw) < sint ?m" and
      ws: "wallets (db w1) =
             map (set_balance t (Balance tw + ?m))
               (map (set_balance f (Balance fw - ?m)) (wallets (db w)))"
      by auto
    from tw assms(1) have nn: "0 \<le> sint (Balance tw)"
      by (auto simp: balances_nonneg_def list_all_iff dest: find_in_set)
    from tw assms(2) have m: "0 \<le> sint ?m" "sint (Balance tw) + sint ?m < 2 ^ 63"
      by (simp_all add: credit_fits_def balance_of_def Let_def)
    from nn m have credit: "0 \<le> sint (Balance tw + ?m)"
      by (simp add: sint_add_in_range)
    from enough m(1) have debit: "0 \<le> sint (Balance fw - ?m)"
      by (simp add: sint_sub_in_range)
    from assms(1) debit credit show ?thesis
      unfolding d snd_conv balances_nonneg_def db ws
      by (intro balances_nonneg_set_balance)
  qed
qed

lemma perform_preserves:
  "balances_nonneg w \<Longrightarrow> call_fits env c w \<Longrightarrow> balances_nonneg (perform env c w)"
  by (cases c) (simp_all add: CreateWallet_preserves Deposit_preserves Transfer_preserves)

lemma run_preserves:
  "balances_nonneg w \<Longrightarrow> run_fits cs w \<Longrightarrow> balances_nonneg (run cs w)"
  by (induction cs arbitrary: w) (auto simp: perform_preserves)

lemma CreateWallet_Inr:
  "CreateWallet env userID w = (Inr wallet, w') \<Longrightarrow>
     Balance wallet = 0 \<and> UserID wallet = userID \<and>
     wallets (db w') = wallets (db w) @ [wallet]"
  by (auto simp: CreateWallet_def userRepo_GetByID_def walletRepo_Create_def cache_defs log_def
        Let_def split: option.splits if_splits)

lemma Transfer_checks_balance:
  assumes "Transfer env f t amount description w = (Inr r, w')"
  shows "sint (DollarsToMinorUnits (oor env) amount) \<le> sint (BalanceBefore r) \<and>
         balance_of w f = Some (BalanceBefore r)"
proof -
  from Transfer_Inr [OF assms] obtain w1 where
    "Transfer_body env f t (DollarsToMinorUnits (oor env) amount) description (log Begin w) =
       (Inr r, w1)"
    by blast
  from Transfer_body_Inr [OF this] show ?thesis
    by (auto simp: balance_of_def)
qed

section \<open>Locks taken\<close>

lemma lock_order_append [simp]:
  "lock_order (xs @ ys) = lock_order xs @ lock_order ys"
  by (simp add: lock_order_def map_filter_def)

lemma lock_order_simps [simp]:
  "lock_order [] = []"
  "lock_order (ev # evs) = (case locked_row ev of None \<Rightarrow> lock_order evs | Some pk \<Rightarrow> pk # lock_order evs)"
  by (simp_all add: lock_order_def map_filter_def split: option.splits)

lemma Transfer_body_locks:
  "Transfer_body env f t m description tx = (res, tx') \<Longrightarrow>
     (lock_order (trace tx') = lock_order (trace tx) @ [f] \<and> (\<forall>r. res \<noteq> Inr r)) \<or>
     lock_order (trace tx') = lock_order (trace tx) @ [f, t]"
  by (auto simp: Transfer_body_def First_for_update_def Update_balance_def Create_transaction_def
        log_def Let_def split: option.splits if_splits)

section \<open>Cache keys are injective\<close>

lemma digit_cases:
  "d < 10 \<Longrightarrow> d = 0 \<or> d = 1 \<or> d = 2 \<or> d = 3 \<or> d = 4 \<or> d = 5 \<or> d = 6 \<or> d = 7 \<or> d = 8 \<or> d = (9::nat)"
  by arith

lemma digit_val_digit_char: "d < 10 \<Longrightarrow> digit_val (digit_char d) = d"
  by (drule digit_cases) (auto simp: digit_val_def digit_char_def)

lemma digit_char_inj:
  "a < 10 \<Longrightarrow> b < 10 \<Longrightarrow> digit_char a = digit_char b \<Longrightarrow> a = b"
  by (metis digit_val_digit_char)

lemma digit_char_not_separator:
  "d < 10 \<Longrightarrow> digit_char d \<noteq> CHR '':'' \<and> digit_char d \<noteq> CHR ''-''"
  by (drule digit_cases) (auto simp: digit_char_def)

lemma fmt_uint_nonempty: "fmt_uint n \<noteq> []" "[] \<noteq> fmt_uint n"
  by (subst fmt_uint.simps, simp)+

lemma fmt_uint_chars:
  "c \<in> set (fmt_uint n) \<Longrightarrow> \<exists>d<10. c = digit_char d"
proof (induction n rule: fmt_uint.induct)
  case (1 n)
  show ?case
  proof (cases "n < 10")
    case True
    with "1.prems" show ?thesis
      by (subst (asm) fmt_uint.simps) auto
  next
    case False
    with "1.prems" have "c \<in> set (fmt_uint (n div 10)) \<or> c = digit_char (n mod 10)"
      by (subst (asm) fmt_uint.simps) auto
    with False "1.IH" show ?thesis
      by (metis mod_less_divisor zero_less_numeral)
  qed
qed

lemma fmt_uint_inj: "fmt_uint n = fmt_uint m \<Longrightarrow> n = m"
proof (induction n arbitrary: m rule: fmt_uint.induct)
  case (1 n)
  show ?case
  proof (cases "n < 10")
    case n: True
    show ?thesis
    proof (cases "m < 10")
      case True
      with n "1.prems" show ?thesis
        by (simp add: fmt_uint.simps [of n] fmt_uint.simps [of m] digit_char_inj)
    next
      case False
      with n "1.prems" show ?thesis
        by (simp add: fmt_uint.simps [of n] fmt_uint.simps [of m] fmt_uint_nonempty)
    qed
  next
    case n: False
    show ?thesis
    proof (cases "m < 10")
      case True
      with n "1.prems" show ?thesis
        by (simp add: fmt_uint.simps [of n] fmt_uint.simps [of m] fmt_uint_nonempty)
    next
      case False
      with n "1.prems" have
        eq: "fmt_uint (n div 10) = fmt_uint (m div 10)"
          "digit_char (n mod 10) = digit_char (m mod 10)"
        by (simp_all add: fmt_uint.simps [of n] fmt_uint.simps [of m])
      from "1.IH" [OF n eq(1)] have "n div 10 = m div 10" .
      moreover from eq(2) have "n mod 10 = m mod 10"
        by (intro digit_char_inj) simp_all
      ultimately show ?thesis
        by (metis div_mult_mod_eq)
    qed
  qed
qed

lemma fmt_uint_no_colon: "CHR '':'' \<notin> set (fmt_uint n)"
proof
  assume "CHR '':'' \<in> set (fmt_uint n)"
  then obtain d where "d < 10" "CHR '':'' = digit_char d"
    using fmt_uint_chars by blast
  then show False
    using digit_char_not_separator [of d] by simp
qed

lemma fmt_uint_no_minus: "CHR ''-'' \<notin> set (fmt_uint n)"
proof
  assume "CHR ''-'' \<in> set (fmt_uint n)"
  then obtain d where "d < 10" "CHR ''-'' = digit_char d"
    using fmt_uint_chars by blast
  then show False
    using digit_char_not_separator [of d] by simp
qed

lemma fmt_int_no_colon: "CHR '':'' \<notin> set (fmt_int i)"
  using fmt_uint_no_colon by (simp add: fmt_int_def)

lemma fmt_int_inj: "fmt_int i = fmt_int j \<Longrightarrow> i = j"
proof -
  assume eq: "fmt_int i = fmt_int j"
  consider "i < 0" "j < 0" | "i < 0" "0 \<le> j" | "0 \<le> i" "j < 0" | "0 \<le> i" "0 \<le> j"
    by linarith
  then show "i = j"
  proof cases
    case 1
    with eq have "nat (- i) = nat (- j)"
      by (simp add: fmt_int_def fmt_uint_inj)
    with 1 show ?thesis by simp
  next
    case 2
    moreover from eq have "set (fmt_int i) = set (fmt_int j)"
      by simp
    ultimately have "CHR ''-'' \<in> set (fmt_uint (nat j))"
      by (auto simp: fmt_int_def)
    with fmt_uint_no_minus show ?thesis by blast
  next
    case 3
    moreover from eq have "set (fmt_int i) = set (fmt_int j)"
      by simp
    ultimately have "CHR ''-'' \<in> set (fmt_uint (nat i))"
      by (auto simp: fmt_int_def)
    with fmt_uint_no_minus show ?thesis by blast
  next
    case 4
    with eq have "nat i = nat j"
      by (simp add: fmt_int_def fmt_uint_inj)
    with 4 show ?thesis by simp
  qed
qed

lemma split_at_separator:
  "c \<notin> set xs \<Longrightarrow> c \<notin> set ys \<Longrightarrow> xs @ c # r = ys @ c # r' \<Longrightarrow> xs = ys \<and> r = r'"
proof (induction xs arbitrary: ys)
  case Nil
  then show ?case by (cases ys) auto
next
  case (Cons x xs)
  then show ?case by (cases ys) auto
qed

lemma transactions_cacheKey_inj:
  assumes "transactions_cacheKey a l k = transactions_cacheKey a' l' k'"
  shows "a = a' \<and> l = l' \<and> k = k'"
proof -
  from assms have
    "fmt_uint a @ CHR '':'' # (''transactions:'' @ fmt_int l @ CHR '':'' # fmt_int k) =
     fmt_uint a' @ CHR '':'' # (''transactions:'' @ fmt_int l' @ CHR '':'' # fmt_int k')"
    by (simp add: transactions_cacheKey_def)
  from split_at_separator [OF fmt_uint_no_colon fmt_uint_no_colon this] have
    a: "fmt_uint a = fmt_uint a'" and
    rest: "fmt_int l @ CHR '':'' # fmt_int k = fmt_int l' @ CHR '':'' # fmt_int k'"
    by simp_all
  from split_at_separator [OF fmt_int_no_colon fmt_int_no_colon rest] have "fmt_int l = fmt_int l'" "fmt_int k = fmt_int k'"
    by simp_all
  with a show ?thesis
    by (simp add: fmt_uint_inj fmt_int_inj)
qed

section \<open>History pages\<close>

lemma order_by_newest_first: "newest_first (order_by_created_at_desc tie rows)"
proof -
  have "sorted (map (\<lambda>t. - int (CreatedAt t))
          (sort_key (\<lambda>t. - int (CreatedAt t)) (sort_key tie rows)))"
    by (rule sorted_sort_key)
  then show ?thesis
    by (simp add: newest_first_def order_by_created_at_desc_def sorted_map)
qed

lemma newest_first_limit_offset:
  "newest_first rows \<Longrightarrow> newest_first (limit_offset limit offset rows)"
  by (simp add: newest_first_def limit_offset_def Let_def sorted_wrt_take sorted_wrt_drop)

lemma set_limit_offset: "set (limit_offset limit offset rows) \<subseteq> set rows"
  by (auto simp: limit_offset_def Let_def dest: in_set_takeD in_set_dropD)

lemma set_order_by: "set (order_by_created_at_desc tie rows) = set rows"
  by (simp add: order_by_created_at_desc_def)

lemma GetByWalletID_rows:
  assumes "GetByWalletID env i walletID limit offset w = (Inr rows, w')"
  shows "newest_first rows \<and>
         (\<forall>t\<in>set rows. WalletID t = walletID \<and> t \<in> set (transactions (db w)))"
proof -
  let ?all = "order_by_created_at_desc (tie_rank env)
                (filter (\<lambda>t. WalletID t = walletID) (transactions (db w)))"
  from assms have rows: "rows = limit_offset limit offset ?all"
    by (auto simp: GetByWalletID_def log_def Let_def split: option.splits)
  have "newest_first rows"
    unfolding rows by (intro newest_first_limit_offset order_by_newest_first)
  moreover have "set rows \<subseteq> set ?all"
    unfolding rows by (rule set_limit_offset)
  ultimately show ?thesis
    by (auto simp: set_order_by)
qed

lemma tied_world_rows:
  "transactions (db tied_world) = [sample_deposit_row, second_deposit_row]"
  by (simp add: tied_world_def tied_run_def engine_defs storage_defs cache_defs sample_defs
        Let_def minor_units_75_25 positive_75_25 minor_units_50_25 positive_50_25
        sample_deposit_row_def second_deposit_row_def)

lemma GetTransactions_hit:
  assumes "\<not> redis_fault env 0"
    and "cache w (transactions_cacheKey walletID limit offset) = Some (text, ttl)"
    and "json_Unmarshal_transactions env text = Some txs"
  shows "GetTransactions env walletID limit offset w =
           (Inr txs, log (CacheGet (transactions_cacheKey walletID limit offset)) w)"
  using assms by (simp add: GetTransactions_def redis_Get_def log_def Let_def)

lemma GetTransactions_read_through:
  assumes "redis_fault env 0 \<or>
           cache w (transactions_cacheKey walletID limit offset) = None \<or>
           (cache w (transactions_cacheKey walletID limit offset) = Some (text, ttl) \<and>
            json_Unmarshal_transactions env text = None)"
    and "storage_fault env 0 = None"
  shows "\<exists>rows w'. GetTransactions env walletID limit offset w = (Inr rows, w') \<and>
           fst (GetByWalletID env 0 walletID limit offset
                  (log (CacheGet (transactions_cacheKey walletID limit offset)) w)) = Inr rows \<and>
           (\<forall>json. json_Marshal_transactions env rows = Some json \<and> \<not> redis_fault env 1 \<longrightarrow>
              cache w' (transactions_cacheKey walletID limit offset) = Some (json, 2 * 60))"
  using assms
  by (auto simp: GetTransactions_def redis_Get_def redis_Set_def GetByWalletID_def log_def Let_def
        split: option.splits)

section \<open>Amounts and sums outside int64\<close>








lemma sint_add_iff:
  fixes a b :: int64
  shows "sint (a + b) = sint a + sint b \<longleftrightarrow>
         - (2 ^ 63) \<le> sint a + sint b \<and> sint a + sint b < 2 ^ 63"
proof
  assume "sint (a + b) = sint a + sint b"
  with sint_ge [of "a + b"] sint_lt [of "a + b"]
  show "- (2 ^ 63) \<le> sint a + sint b \<and> sint a + sint b < 2 ^ 63"
    by simp
next
  assume r: "- (2 ^ 63) \<le> sint a + sint b \<and> sint a + sint b < 2 ^ 63"
  have "sint (a + b) = signed_take_bit (LENGTH(64) - 1) (sint a + sint b)"
    by (rule sint_word_ariths)
  also have "\<dots> = sint a + sint b"
    using r by (intro signed_take_bit_int_eq_self) simp_all
  finally show "sint (a + b) = sint a + sint b" .
qed







section \<open>Calls issued by a successful Deposit or Transfer\<close>

lemma trace_invalidateWalletCache [simp]:
  "trace (invalidateWalletCache env i k w) = trace w @ [CacheDel (wallet_cacheKey k)]"
  by (simp add: cache_defs log_def Let_def)

lemma trace_invalidateTransactionCache [simp]:
  "trace (invalidateTransactionCache env i k w) = trace w @ [CacheScanDel (transactions_pattern k)]"
  by (simp add: cache_defs log_def Let_def)

lemma Deposit_body_trace:
  "Deposit_body env walletID m description tx = (Inr t, tx') \<Longrightarrow>
     trace tx' = trace tx @ [SelectForUpdate walletID, UpdateBalance walletID (BalanceAfter t),
                             InsertTransaction (TransactionUUID t)]"
  by (auto simp: Deposit_body_def First_for_update_Inr Update_balance_def Create_transaction_def
        log_def Let_def split: prod.splits sum.splits option.splits if_splits)

lemma Transfer_body_trace:
  "Transfer_body env f t m description tx = (Inr r, tx') \<Longrightarrow>
     \<exists>r2. transactions (db tx') = transactions (db tx) @ [r, r2] \<and>
       trace tx' = trace tx @
         [SelectForUpdate f, SelectForUpdate t,
          UpdateBalance f (BalanceAfter r), UpdateBalance t (BalanceAfter r2),
          InsertTransaction (TransactionUUID r), InsertTransaction (TransactionUUID r2)]"
  by (auto simp: Transfer_body_def First_for_update_Inr Update_balance_def Create_transaction_def
        log_def Let_def split: prod.splits sum.splits option.splits if_splits)

lemma Deposit_trace:
  assumes "Deposit env walletID amount description w = (Inr t, w')"
  shows "trace w' = trace w @
           [Begin, SelectForUpdate walletID, UpdateBalance walletID (BalanceAfter t),
            InsertTransaction (TransactionUUID t), Commit,
            CacheDel (wallet_cacheKey walletID), CacheScanDel (transactions_pattern walletID)]"
proof -
  let ?m = "DollarsToMinorUnits (oor env) amount"
  from assms obtain w0 where
    tr: "db_Transaction env 4 (Deposit_body env walletID ?m description) w = (Inr t, w0)" and
    w': "w' = invalidateTransactionCache env 1 walletID (invalidateWalletCache env 0 walletID w0)"
    by (auto simp: Deposit_def Let_def split: if_splits prod.splits sum.splits)
  from db_Transaction_Inr [OF tr] obtain w1 where
    body: "Deposit_body env walletID ?m description (log Begin w) = (Inr t, w1)" and
    w0: "w0 = log Commit w1"
    by blast
  from Deposit_body_trace [OF body] show ?thesis
    by (simp add: w' w0)
qed

lemma Transfer_trace:
  assumes "Transfer env f t amount description w = (Inr r, w')"
  shows "\<exists>r2. transactions (db w') = transactions (db w) @ [r, r2] \<and>
           trace w' = trace w @
             [Begin, SelectForUpdate f, SelectForUpdate t,
              UpdateBalance f (BalanceAfter r), UpdateBalance t (BalanceAfter r2),
              InsertTransaction (TransactionUUID r), InsertTransaction (TransactionUUID r2),
              Commit, CacheDel (wallet_cacheKey f), CacheDel (wallet_cacheKey t),
              CacheScanDel (transactions_pattern f), CacheScanDel (transactions_pattern t)]"
proof -
  let ?m = "DollarsToMinorUnits (oor env) amount"
  from assms obtain w0 where
    tr: "db_Transaction env 7 (Transfer_body env f t ?m description) w = (Inr r, w0)" and
    w': "w' = invalidateTransactionCache env 3 t
               (invalidateTransactionCache env 2 f
                  (invalidateWalletCache env 1 t (invalidateWalletCache env 0 f w0)))"
    by (auto simp: Transfer_def Let_def split: if_splits prod.splits sum.splits)
  from db_Transaction_Inr [OF tr] obtain w1 where
    body: "Transfer_body env f t ?m description (log Begin w) = (Inr r, w1)" and
    w0: "w0 = log Commit w1"
    by blast
  from Transfer_body_trace [OF body] show ?thesis
    by (auto simp: w' w0)
qed

section \<open>Transfer below the converted amount\<close>


section \<open>Sample runs\<close>

lemma sample_deposit:
  "Deposit sample_env 1 amount_75_25 [] sample_world =
     (Inr sample_deposit_row, snd (Deposit sample_env 1 amount_75_25 [] sample_world))"
  by (simp add: Deposit_def Deposit_body_def storage_defs cache_defs sample_defs Let_def
        minor_units_75_25 positive_75_25 set_balance_def sample_deposit_row_def)

lemma sample_transfer:
  "Transfer sample_env 1 2 amount_75_25 [] sample_world =
     (Inr sample_debit_row, snd (Transfer sample_env 1 2 amount_75_25 [] sample_world))"
  by (simp add: Transfer_def Transfer_body_def storage_defs cache_defs sample_defs Let_def
        minor_units_75_25 positive_75_25 set_balance_def sample_debit_row_def)

lemma sample_transfer_db:
  "db (snd (Transfer sample_env 1 2 amount_75_25 [] sample_world)) =
     \<lparr>users = [1],
      wallets = [\<lparr>wallet_ID = 1, UserID = 1, Balance = 5000\<rparr>,
                 \<lparr>wallet_ID = 2, UserID = 1, Balance = 12550\<rparr>],
      transactions = [sample_debit_row, sample_credit_row]\<rparr>"
  by (simp add: Transfer_def Transfer_body_def storage_defs cache_defs sample_defs Let_def
        minor_units_75_25 positive_75_25 set_balance_def sample_debit_row_def sample_credit_row_def)

lemma tied_world_cache: "cache tied_world = Map.empty"
  by (simp add: tied_world_def tied_run_def engine_defs storage_defs cache_defs sample_defs
        Let_def minor_units_75_25 positive_75_25 minor_units_50_25 positive_50_25 fun_eq_iff)

lemma sample_history_page:
  "GetByWalletID sample_env 0 1 10 0 tied_world =
     (Inr [sample_deposit_row, second_deposit_row], log (SelectTransactions 1 10 0) tied_world)"
  by (simp add: GetByWalletID_def Let_def tied_world_rows limit_offset_def
        order_by_created_at_desc_def sample_env_def
        sample_deposit_row_def second_deposit_row_def)

lemma sample_history_read:
  "fst (GetTransactions sample_env 1 10 0 tied_world) =
     Inr [sample_deposit_row, second_deposit_row]"
  by (simp add: GetTransactions_def redis_Get_def redis_Set_def tied_world_cache
        GetByWalletID_def log_def Let_def tied_world_rows limit_offset_def
        order_by_created_at_desc_def sample_env_def
        sample_deposit_row_def second_deposit_row_def)

lemma wallet_cacheKey_1: "wallet_cacheKey 1 = ''wallet:1''"
  by (simp add: wallet_cacheKey_def fmt_uint.simps digit_char_def)

lemma wallet_cacheKey_2: "wallet_cacheKey 2 = ''wallet:2''"
  by (simp add: wallet_cacheKey_def fmt_uint.simps digit_char_def)

lemma sample_create:
  "CreateWallet sample_env 1 empty_world =
     (Inr \<lparr>wallet_ID = 1, UserID = 1, Balance = 0\<rparr>,
      snd (CreateWallet sample_env 1 empty_world))"
  by (simp add: engine_defs storage_defs cache_defs sample_defs Let_def)



lemma overflow_run_rows:
  "transactions (db (run overflow_run empty_world)) = [first_overflow_row, second_overflow_row]"
  by (simp add: overflow_run_def engine_defs storage_defs cache_defs sample_defs Let_def
        minor_units_5e16 positive_5e16 first_overflow_row_def second_overflow_row_def)

section \<open>Claim about the balance invariant\<close>

text \<open>
  C1 as stated, for every sequence of operations, fails: balances are \<open>int64\<close> and the
  addition of a Deposit wraps around. After CreateWallet and two Deposits of 5e16 the
  balance of the wallet is \<open>10^19\<close> modulo \<open>2^64\<close>, which \<open>int64\<close> reads as a
  negative number.
\<close>

theorem balance_negative_after_overflow:
  "balances_nonneg empty_world \<and>
   balance_of (run overflow_run empty_world) 1 = Some 10000000000000000000 \<and>
   sint (10000000000000000000 :: int64) = - 8446744073709551616 \<and>
   \<not> balances_nonneg (run overflow_run empty_world)"
  by (simp add: overflow_run_def engine_defs storage_defs cache_defs sample_defs Let_def
        minor_units_5e16 positive_5e16 balances_nonneg_def balance_of_def)

text \<open>
  C1 (amended). For every sequence of engine operations (CreateWallet, Deposit,
  Transfer) in which every credit fits \<open>int64\<close>, that is the converted amount is not
  negative and the balance of the credited wallet plus the amount stays below
  \<open>2^63\<close>, no wallet balance goes negative when none was negative at the start.
  CreateWallet stores the new wallet with balance zero; Deposit adds the converted
  amount of a positive \<open>float64\<close>; a Transfer that succeeds has found the source
  balance at least as large as the amount.
\<close>

theorem balances_nonneg_while_credits_fit:
  "(balances_nonneg w \<and> run_fits cs w \<longrightarrow> balances_nonneg (run cs w)) \<and>
   (CreateWallet env userID w = (Inr wallet, w') \<longrightarrow>
      Balance wallet = 0 \<and> wallets (db w') = wallets (db w) @ [wallet]) \<and>
   (Deposit env walletID amount description w = (Inr t, w'') \<longrightarrow>
      \<not> f64_le_zero amount \<and> Amount t = DollarsToMinorUnits (oor env) amount \<and>
      BalanceAfter t = BalanceBefore t + Amount t) \<and>
   (Transfer env fromWalletID toWalletID amount description w = (Inr r, w''') \<longrightarrow>
      sint (DollarsToMinorUnits (oor env) amount) \<le> sint (BalanceBefore r) \<and>
      balance_of w fromWalletID = Some (BalanceBefore r))"
proof (intro conjI impI)
  assume "balances_nonneg w \<and> run_fits cs w"
  then show "balances_nonneg (run cs w)"
    by (simp add: run_preserves)
next
  assume "CreateWallet env userID w = (Inr wallet, w')"
  from CreateWallet_Inr [OF this]
  show "Balance wallet = 0" "wallets (db w') = wallets (db w) @ [wallet]"
    by simp_all
next
  assume d: "Deposit env walletID amount description w = (Inr t, w'')"
  from Deposit_Inr [OF d] obtain w1 where
    "\<not> f64_le_zero amount"
    "Deposit_body env walletID (DollarsToMinorUnits (oor env) amount) description (log Begin w) =
       (Inr t, w1)"
    by blast
  then show "\<not> f64_le_zero amount" "Amount t = DollarsToMinorUnits (oor env) amount"
    by (auto dest: Deposit_body_Inr)
  from Deposit_record [OF d] show "BalanceAfter t = BalanceBefore t + Amount t"
    by simp
next
  assume "Transfer env fromWalletID toWalletID amount description w = (Inr r, w''')"
  from Transfer_checks_balance [OF this]
  show "sint (DollarsToMinorUnits (oor env) amount) \<le> sint (BalanceBefore r)"
    "balance_of w fromWalletID = Some (BalanceBefore r)"
    by simp_all
qed

theorem balances_nonneg_while_credits_fit_witness:
  "balances_nonneg sample_world \<and> run_fits sample_run sample_world \<and>
   balances_nonneg (run sample_run sample_world) \<and>
   balance_of (run sample_run sample_world) 1 = Some 12525 \<and>
   balance_of (run sample_run sample_world) 2 = Some 12550 \<and>
   CreateWallet sample_env 1 empty_world =
     (Inr \<lparr>wallet_ID = 1, UserID = 1, Balance = 0\<rparr>,
      snd (CreateWallet sample_env 1 empty_world)) \<and>
   Deposit sample_env 1 amount_75_25 [] sample_world =
     (Inr sample_deposit_row, snd (Deposit sample_env 1 amount_75_25 [] sample_world)) \<and>
   Amount sample_deposit_row = DollarsToMinorUnits (oor sample_env) amount_75_25 \<and>
   Transfer sample_env 1 2 amount_75_25 [] sample_world =
     (Inr sample_debit_row, snd (Transfer sample_env 1 2 amount_75_25 [] sample_world)) \<and>
   sint (DollarsToMinorUnits (oor sample_env) amount_75_25) \<le> sint (BalanceBefore sample_debit_row)"
proof -
  have a: "balances_nonneg sample_world"
    by (simp add: balances_nonneg_def sample_defs)
  have b: "run_fits sample_run sample_world"
    by (simp add: sample_run_def credit_fits_def engine_defs storage_defs cache_defs
          sample_defs Let_def minor_units_75_25 positive_75_25 balance_of_def)
  have c: "balance_of (run sample_run sample_world) 1 = Some 12525"
    "balance_of (run sample_run sample_world) 2 = Some 12550"
    by (simp_all add: sample_run_def engine_defs storage_defs cache_defs
          sample_defs Let_def minor_units_75_25 positive_75_25 balance_of_def)
  note T = balances_nonneg_while_credits_fit
    [of sample_world sample_run sample_env 1 "\<lparr>wallet_ID = 1, UserID = 1, Balance = 0\<rparr>"
        "snd (CreateWallet sample_env 1 empty_world)" 1 amount_75_25 "[]" sample_deposit_row
        "snd (Deposit sample_env 1 amount_75_25 [] sample_world)" 1 2 sample_debit_row
        "snd (Transfer sample_env 1 2 amount_75_25 [] sample_world)"]
  from T a b have 1: "balances_nonneg (run sample_run sample_world)"
    by blast
  from T sample_deposit have 2:
    "Amount sample_deposit_row = DollarsToMinorUnits (oor sample_env) amount_75_25"
    by blast
  from T sample_transfer have 3:
    "sint (DollarsToMinorUnits (oor sample_env) amount_75_25) \<le> sint (BalanceBefore sample_debit_row)"
    by blast
  from 1 2 3 a b c sample_create sample_deposit sample_transfer show ?thesis
    by blast
qed

section \<open>Claims about the records written\<close>

text \<open>
  C2 as stated fails when it is read over the integers: in the run that overflows the
  balance, the second record has balance_before 5000000000000000000, amount
  5000000000000000000 and balance_after -8446744073709551616.
\<close>

theorem record_equation_fails_on_overflow:
  "transactions (db (run overflow_run empty_world)) = [first_overflow_row, second_overflow_row] \<and>
   sint (BalanceBefore second_overflow_row) = 5000000000000000000 \<and>
   sint (Amount second_overflow_row) = 5000000000000000000 \<and>
   sint (BalanceAfter second_overflow_row) = - 8446744073709551616 \<and>
   sint (BalanceAfter second_overflow_row) \<noteq>
     sint (BalanceBefore second_overflow_row) + sint (Amount second_overflow_row)"
  by (simp add: overflow_run_rows) (simp add: second_overflow_row_def)

text \<open>
  C2 (amended). Every Transaction Record written by Deposit or Transfer satisfies
  balance_after = balance_before + amount in \<open>int64\<close> arithmetic, which wraps around;
  read as integers the equation holds exactly when balance_before + amount fits
  \<open>int64\<close>. balance_before is the balance the wallet row had when the call began, read
  by the locking read that follows the begin of the storage transaction, and
  balance_after is the balance the update of the same storage transaction writes to
  that row before the commit: the calls a successful Deposit issues are begin, locking
  read of the wallet, update with balance_after, insert of the record, commit and the
  two cache invalidations, in this order, and those of a successful Transfer are begin,
  locking read of the source, locking read of the destination, the two updates, the two
  inserts, commit and the four cache invalidations.
\<close>

theorem transaction_record_balance_equation:
  "(Deposit env walletID amount description w = (Inr t, w') \<longrightarrow>
      BalanceAfter t = BalanceBefore t + Amount t \<and>
      (sint (BalanceAfter t) = sint (BalanceBefore t) + sint (Amount t) \<longleftrightarrow>
         - (2 ^ 63) \<le> sint (BalanceBefore t) + sint (Amount t) \<and>
         sint (BalanceBefore t) + sint (Amount t) < 2 ^ 63) \<and>
      balance_of w walletID = Some (BalanceBefore t) \<and>
      balance_of w' walletID = Some (BalanceAfter t) \<and>
      transactions (db w') = transactions (db w) @ [t] \<and>
      trace w' = trace w @
        [Begin, SelectForUpdate walletID, UpdateBalance walletID (BalanceAfter t),
         InsertTransaction (TransactionUUID t), Commit,
         CacheDel (wallet_cacheKey walletID), CacheScanDel (transactions_pattern walletID)]) \<and>
   (Transfer env fromWalletID toWalletID amount description w = (Inr r, w'') \<longrightarrow>
      (\<exists>r2. transactions (db w'') = transactions (db w) @ [r, r2] \<and>
         BalanceAfter r = BalanceBefore r + Amount r \<and>
         BalanceAfter r2 = BalanceBefore r2 + Amount r2 \<and>
         (sint (BalanceAfter r) = sint (BalanceBefore r) + sint (Amount r) \<longleftrightarrow>
            - (2 ^ 63) \<le> sint (BalanceBefore r) + sint (Amount r) \<and>
            sint (BalanceBefore r) + sint (Amount r) < 2 ^ 63) \<and>
         (sint (BalanceAfter r2) = sint (BalanceBefore r2) + sint (Amount r2) \<longleftrightarrow>
            - (2 ^ 63) \<le> sint (BalanceBefore r2) + sint (Amount r2) \<and>
            sint (BalanceBefore r2) + sint (Amount r2) < 2 ^ 63) \<and>
         balance_of w fromWalletID = Some (BalanceBefore r) \<and>
         balance_of w'' fromWalletID = Some (BalanceAfter r) \<and>
         balance_of w toWalletID = Some (BalanceBefore r2) \<and>
         balance_of w'' toWalletID = Some (BalanceAfter r2) \<and>
         trace w'' = trace w @
           [Begin, SelectForUpdate fromWalletID, SelectForUpdate toWalletID,
            UpdateBalance fromWalletID (BalanceAfter r),
            UpdateBalance toWalletID (BalanceAfter r2),
            InsertTransaction (TransactionUUID r), InsertTransaction (TransactionUUID r2),
            Commit, CacheDel (wallet_cacheKey fromWalletID),
            CacheDel (wallet_cacheKey toWalletID),
            CacheScanDel (transactions_pattern fromWalletID),
            CacheScanDel (transactions_pattern toWalletID)]))"
proof (rule conjI; rule impI)
  assume d: "Deposit env walletID amount description w = (Inr t, w')"
  from Deposit_record [OF d] have
    e: "BalanceAfter t = BalanceBefore t + Amount t" and
    b: "balance_of w walletID = Some (BalanceBefore t)"
       "balance_of w' walletID = Some (BalanceAfter t)"
       "transactions (db w') = transactions (db w) @ [t]"
    by simp_all
  from e have "sint (BalanceAfter t) = sint (BalanceBefore t) + sint (Amount t) \<longleftrightarrow>
         - (2 ^ 63) \<le> sint (BalanceBefore t) + sint (Amount t) \<and>
         sint (BalanceBefore t) + sint (Amount t) < 2 ^ 63"
    using sint_add_iff [of "BalanceBefore t" "Amount t"] by simp
  with e b Deposit_trace [OF d]
  show "BalanceAfter t = BalanceBefore t + Amount t \<and>
      (sint (BalanceAfter t) = sint (BalanceBefore t) + sint (Amount t) \<longleftrightarrow>
         - (2 ^ 63) \<le> sint (BalanceBefore t) + sint (Amount t) \<and>
         sint (BalanceBefore t) + sint (Amount t) < 2 ^ 63) \<and>
      balance_of w walletID = Some (BalanceBefore t) \<and>
      balance_of w' walletID = Some (BalanceAfter t) \<and>
      transactions (db w') = transactions (db w) @ [t] \<and>
      trace w' = trace w @
        [Begin, SelectForUpdate walletID, UpdateBalance walletID (BalanceAfter t),
         InsertTransaction (TransactionUUID t), Commit,
         CacheDel (wallet_cacheKey walletID), CacheScanDel (transactions_pattern walletID)]"
    by blast
next
  assume d: "Transfer env fromWalletID toWalletID amount description w = (Inr r, w'')"
  from Transfer_trace [OF d] obtain r2 where
    ts: "transactions (db w'') = transactions (db w) @ [r, r2]" and
    tr: "trace w'' = trace w @
           [Begin, SelectForUpdate fromWalletID, SelectForUpdate toWalletID,
            UpdateBalance fromWalletID (BalanceAfter r),
            UpdateBalance toWalletID (BalanceAfter r2),
            InsertTransaction (TransactionUUID r), InsertTransaction (TransactionUUID r2),
            Commit, CacheDel (wallet_cacheKey fromWalletID),
            CacheDel (wallet_cacheKey toWalletID),
            CacheScanDel (transactions_pattern fromWalletID),
            CacheScanDel (transactions_pattern toWalletID)]"
    by blast
  from Transfer_records [OF d] obtain r2' where
    ts': "transactions (db w'') = transactions (db w) @ [r, r2']" and
    e: "BalanceAfter r = BalanceBefore r + Amount r"
       "BalanceAfter r2' = BalanceBefore r2' + Amount r2'" and
    b: "balance_of w fromWalletID = Some (BalanceBefore r)"
       "balance_of w'' fromWalletID = Some (BalanceAfter r)"
       "balance_of w toWalletID = Some (BalanceBefore r2')"
       "balance_of w'' toWalletID = Some (BalanceAfter r2')"
    by blast
  from ts ts' have same: "r2' = r2" by simp
  from e same have i:
    "sint (BalanceAfter r) = sint (BalanceBefore r) + sint (Amount r) \<longleftrightarrow>
       - (2 ^ 63) \<le> sint (BalanceBefore r) + sint (Amount r) \<and>
       sint (BalanceBefore r) + sint (Amount r) < 2 ^ 63"
    "sint (BalanceAfter r2) = sint (BalanceBefore r2) + sint (Amount r2) \<longleftrightarrow>
       - (2 ^ 63) \<le> sint (BalanceBefore r2) + sint (Amount r2) \<and>
       sint (BalanceBefore r2) + sint (Amount r2) < 2 ^ 63"
    using sint_add_iff [of "BalanceBefore r" "Amount r"]
      sint_add_iff [of "BalanceBefore r2" "Amount r2"] by simp_all
  from ts tr e b i same
  show "\<exists>r2. transactions (db w'') = transactions (db w) @ [r, r2] \<and>
         BalanceAfter r = BalanceBefore r + Amount r \<and>
         BalanceAfter r2 = BalanceBefore r2 + Amount r2 \<and>
         (sint (BalanceAfter r) = sint (BalanceBefore r) + sint (Amount r) \<longleftrightarrow>
            - (2 ^ 63) \<le> sint (BalanceBefore r) + sint (Amount r) \<and>
            sint (BalanceBefore r) + sint (Amount r) < 2 ^ 63) \<and>
         (sint (BalanceAfter r2) = sint (BalanceBefore r2) + sint (Amount r2) \<longleftrightarrow>
            - (2 ^ 63) \<le> sint (BalanceBefore r2) + sint (Amount r2) \<and>
            sint (BalanceBefore r2) + sint (Amount r2) < 2 ^ 63) \<and>
         balance_of w fromWalletID = Some (BalanceBefore r) \<and>
         balance_of w'' fromWalletID = Some (BalanceAfter r) \<and>
         balance_of w toWalletID = Some (BalanceBefore r2) \<and>
         balance_of w'' toWalletID = Some (BalanceAfter r2) \<and>
         trace w'' = trace w @
           [Begin, SelectForUpdate fromWalletID, SelectForUpdate toWalletID,
            UpdateBalance fromWalletID (BalanceAfter r),
            UpdateBalance toWalletID (BalanceAfter r2),
            InsertTransaction (TransactionUUID r), InsertTransaction (TransactionUUID r2),
            Commit, CacheDel (wallet_cacheKey fromWalletID),
            CacheDel (wallet_cacheKey toWalletID),
            CacheScanDel (transactions_pattern fromWalletID),
            CacheScanDel (transactions_pattern toWalletID)]"
    by (intro exI [of _ r2]) simp
qed

theorem transaction_record_balance_equation_witness:
  "Deposit sample_env 1 amount_75_25 [] sample_world =
     (Inr sample_deposit_row, snd (Deposit sample_env 1 amount_75_25 [] sample_world)) \<and>
   BalanceAfter sample_deposit_row = BalanceBefore sample_deposit_row + Amount sample_deposit_row \<and>
   - (2 ^ 63) \<le> sint (BalanceBefore sample_deposit_row) + sint (Amount sample_deposit_row) \<and>
   sint (BalanceBefore sample_deposit_row) + sint (Amount sample_deposit_row) < 2 ^ 63 \<and>
   sint (BalanceAfter sample_deposit_row) =
     sint (BalanceBefore sample_deposit_row) + sint (Amount sample_deposit_row) \<and>
   balance_of sample_world 1 = Some (BalanceBefore sample_deposit_row) \<and>
   balance_of (snd (Deposit sample_env 1 amount_75_25 [] sample_world)) 1 =
     Some (BalanceAfter sample_deposit_row) \<and>
   trace (snd (Deposit sample_env 1 amount_75_25 [] sample_world)) =
     trace sample_world @
       [Begin, SelectForUpdate 1, UpdateBalance 1 (BalanceAfter sample_deposit_row),
        InsertTransaction (TransactionUUID sample_deposit_row), Commit,
        CacheDel (wallet_cacheKey 1), CacheScanDel (transactions_pattern 1)] \<and>
   Transfer sample_env 1 2 amount_75_25 [] sample_world =
     (Inr sample_debit_row, snd (Transfer sample_env 1 2 amount_75_25 [] sample_world)) \<and>
   transactions (db (snd (Transfer sample_env 1 2 amount_75_25 [] sample_world))) =
     transactions (db sample_world) @ [sample_debit_row, sample_credit_row] \<and>
   sint (BalanceAfter sample_debit_row) =
     sint (BalanceBefore sample_debit_row) + sint (Amount sample_debit_row) \<and>
   sint (BalanceAfter sample_credit_row) =
     sint (BalanceBefore sample_credit_row) + sint (Amount sample_credit_row) \<and>
   balance_of (snd (Transfer sample_env 1 2 amount_75_25 [] sample_world)) 1 =
     Some (BalanceAfter sample_debit_row) \<and>
   balance_of (snd (Transfer sample_env 1 2 amount_75_25 [] sample_world)) 2 =
     Some (BalanceAfter sample_credit_row) \<and>
   trace (snd (Transfer sample_env 1 2 amount_75_25 [] sample_world)) =
     trace sample_world @
       [Begin, SelectForUpdate 1, SelectForUpdate 2,
        UpdateBalance 1 (BalanceAfter sample_debit_row),
        UpdateBalance 2 (BalanceAfter sample_credit_row),
        InsertTransaction (TransactionUUID sample_debit_row),
        InsertTransaction (TransactionUUID sample_credit_row),
        Commit, CacheDel (wallet_cacheKey 1), CacheDel (wallet_cacheKey 2),
        CacheScanDel (transactions_pattern 1), CacheScanDel (transactions_pattern 2)]"
proof -
  note T = transaction_record_balance_equation
    [of sample_env 1 amount_75_25 "[]" sample_world sample_deposit_row
        "snd (Deposit sample_env 1 amount_75_25 [] sample_world)" 1 2 sample_debit_row
        "snd (Transfer sample_env 1 2 amount_75_25 [] sample_world)"]
  have fits:
    "- (2 ^ 63) \<le> sint (BalanceBefore sample_deposit_row) + sint (Amount sample_deposit_row)"
    "sint (BalanceBefore sample_deposit_row) + sint (Amount sample_deposit_row) < 2 ^ 63"
    "- (2 ^ 63) \<le> sint (BalanceBefore sample_debit_row) + sint (Amount sample_debit_row)"
    "sint (BalanceBefore sample_debit_row) + sint (Amount sample_debit_row) < 2 ^ 63"
    "- (2 ^ 63) \<le> sint (BalanceBefore sample_credit_row) + sint (Amount sample_credit_row)"
    "sint (BalanceBefore sample_credit_row) + sint (Amount sample_credit_row) < 2 ^ 63"
    by (simp_all add: sample_deposit_row_def sample_debit_row_def sample_credit_row_def)
  from T sample_deposit fits(1,2) have dep:
    "BalanceAfter sample_deposit_row = BalanceBefore sample_deposit_row + Amount sample_deposit_row"
    "sint (BalanceAfter sample_deposit_row) =
       sint (BalanceBefore sample_deposit_row) + sint (Amount sample_deposit_row)"
    "balance_of sample_world 1 = Some (BalanceBefore sample_deposit_row)"
    "balance_of (snd (Deposit sample_env 1 amount_75_25 [] sample_world)) 1 =
       Some (BalanceAfter sample_deposit_row)"
    "trace (snd (Deposit sample_env 1 amount_75_25 [] sample_world)) =
       trace sample_world @
         [Begin, SelectForUpdate 1, UpdateBalance 1 (BalanceAfter sample_deposit_row),
          InsertTransaction (TransactionUUID sample_deposit_row), Commit,
          CacheDel (wallet_cacheKey 1), CacheScanDel (transactions_pattern 1)]"
    by blast+
  from T sample_transfer obtain r2 where
    r2: "transactions (db (snd (Transfer sample_env 1 2 amount_75_25 [] sample_world))) =
           transactions (db sample_world) @ [sample_debit_row, r2]" and
    i: "sint (BalanceAfter sample_debit_row) =
          sint (BalanceBefore sample_debit_row) + sint (Amount sample_debit_row) \<longleftrightarrow>
          - (2 ^ 63) \<le> sint (BalanceBefore sample_debit_row) + sint (Amount sample_debit_row) \<and>
          sint (BalanceBefore sample_debit_row) + sint (Amount sample_debit_row) < 2 ^ 63"
       "sint (BalanceAfter r2) = sint (BalanceBefore r2) + sint (Amount r2) \<longleftrightarrow>
          - (2 ^ 63) \<le> sint (BalanceBefore r2) + sint (Amount r2) \<and>
          sint (BalanceBefore r2) + sint (Amount r2) < 2 ^ 63" and
    b: "balance_of (snd (Transfer sample_env 1 2 amount_75_25 [] sample_world)) 1 =
          Some (BalanceAfter sample_debit_row)"
       "balance_of (snd (Transfer sample_env 1 2 amount_75_25 [] sample_world)) 2 =
          Some (BalanceAfter r2)" and
    tr: "trace (snd (Transfer sample_env 1 2 amount_75_25 [] sample_world)) =
       trace sample_world @
         [Begin, SelectForUpdate 1, SelectForUpdate 2,
          UpdateBalance 1 (BalanceAfter sample_debit_row),
          UpdateBalance 2 (BalanceAfter r2),
          InsertTransaction (TransactionUUID sample_debit_row),
          InsertTransaction (TransactionUUID r2),
          Commit, CacheDel (wallet_cacheKey 1), CacheDel (wallet_cacheKey 2),
          CacheScanDel (transactions_pattern 1), CacheScanDel (transactions_pattern 2)]"
    by blast
  from r2 [unfolded sample_transfer_db] have "r2 = sample_credit_row"
    by (simp add: sample_world_def sample_db_def)
  with r2 i b tr fits(3-6) have tra:
    "transactions (db (snd (Transfer sample_env 1 2 amount_75_25 [] sample_world))) =
       transactions (db sample_world) @ [sample_debit_row, sample_credit_row]"
    "sint (BalanceAfter sample_debit_row) =
       sint (BalanceBefore sample_debit_row) + sint (Amount sample_debit_row)"
    "sint (BalanceAfter sample_credit_row) =
       sint (BalanceBefore sample_credit_row) + sint (Amount sample_credit_row)"
    "balance_of (snd (Transfer sample_env 1 2 amount_75_25 [] sample_world)) 1 =
       Some (BalanceAfter sample_debit_row)"
    "balance_of (snd (Transfer sample_env 1 2 amount_75_25 [] sample_world)) 2 =
       Some (BalanceAfter sample_credit_row)"
    "trace (snd (Transfer sample_env 1 2 amount_75_25 [] sample_world)) =
       trace sample_world @
         [Begin, SelectForUpdate 1, SelectForUpdate 2,
          UpdateBalance 1 (BalanceAfter sample_debit_row),
          UpdateBalance 2 (BalanceAfter sample_credit_row),
          InsertTransaction (TransactionUUID sample_debit_row),
          InsertTransaction (TransactionUUID sample_credit_row),
          Commit, CacheDel (wallet_cacheKey 1), CacheDel (wallet_cacheKey 2),
          CacheScanDel (transactions_pattern 1), CacheScanDel (transactions_pattern 2)]"
    by blast+
  from sample_deposit sample_transfer fits(1,2) dep tra show ?thesis
    by blast
qed




section \<open>Claims about failures\<close>




text \<open>
  C6. A Deposit whose amount is not positive (\<open>amount <= 0\<close> on the \<open>float64\<close>:
  negative, either zero, minus infinity) fails with "amount must be positive" and
  returns the world as it received it: no storage transaction is opened, no lock is
  taken, nothing is read or written in the store or the cache, no call is recorded.
\<close>

theorem Deposit_rejects_nonpositive_amount:
  "f64_le_zero amount \<Longrightarrow>
   Deposit env walletID amount description w = (Inl (ErrorsNew ''amount must be positive''), w)"
  by (simp add: Deposit_def)

theorem Deposit_rejects_nonpositive_amount_witness:
  "f64_le_zero 0 \<and>
   Deposit sample_env 1 0 [] sample_world =
     (Inl (ErrorsNew ''amount must be positive''), sample_world)"
proof -
  have z: "f64_le_zero 0"
    by (simp add: f64_defs)
  from Deposit_rejects_nonpositive_amount [OF z, of sample_env 1 "[]" sample_world] z
  show ?thesis by simp
qed

text \<open>
  C7. For a Deposit with a positive amount: when the wallet identifier is absent from
  storage (and the storage does not fault) the error is the not-found signal of the
  storage, \<open>gorm.ErrRecordNotFound\<close>; when one of the five storage calls (begin,
  locking read, balance update, record insert, commit) is the first to fault, the call
  returns that fault; and whenever Deposit returns an error the store and the cache are
  as before, so the balance is unchanged and no Transaction Record persists.
\<close>

theorem Deposit_failure_modes:
  assumes "\<not> f64_le_zero amount"
  shows "(storage_fault env 0 = None \<and> storage_fault env 1 = None \<and>
          balance_of w walletID = None \<longrightarrow>
            fst (Deposit env walletID amount description w) = Inl ErrRecordNotFound) \<and>
         (\<forall>i e. i \<le> 4 \<and> storage_fault env i = Some e \<and>
            (\<forall>j<i. storage_fault env j = None) \<and>
            (2 \<le> i \<longrightarrow> balance_of w walletID \<noteq> None) \<and>
            (i = 4 \<longrightarrow> new_uuid env 0 \<notin> set (map TransactionUUID (transactions (db w)))) \<longrightarrow>
            fst (Deposit env walletID amount description w) = Inl e) \<and>
         (\<forall>e w'. Deposit env walletID amount description w = (Inl e, w') \<longrightarrow>
            db w' = db w \<and> cache w' = cache w)"
proof (intro conjI allI impI)
  assume "storage_fault env 0 = None \<and> storage_fault env 1 = None \<and>
          balance_of w walletID = None"
  with assms show "fst (Deposit env walletID amount description w) = Inl ErrRecordNotFound"
    by (simp add: Deposit_wallet_absent)
next
  fix i e
  assume h: "i \<le> 4 \<and> storage_fault env i = Some e \<and>
            (\<forall>j<i. storage_fault env j = None) \<and>
            (2 \<le> i \<longrightarrow> balance_of w walletID \<noteq> None) \<and>
            (i = 4 \<longrightarrow> new_uuid env 0 \<notin> set (map TransactionUUID (transactions (db w))))"
  then consider "i = 0" | "i = 1" | "i = 2" | "i = 3" | "i = 4"
    by arith
  then show "fst (Deposit env walletID amount description w) = Inl e"
  proof cases
    case 1
    with h assms show ?thesis by (simp add: Deposit_fault_0)
  next
    case 2
    with h assms show ?thesis by (simp add: Deposit_fault_1)
  next
    case 3
    with h obtain b where "balance_of w walletID = Some b" by auto
    with 3 h assms show ?thesis by (simp add: Deposit_fault_2)
  next
    case 4
    with h obtain b where "balance_of w walletID = Some b" by auto
    moreover from 4 h have "storage_fault env 0 = None" "storage_fault env 1 = None"
      "storage_fault env 2 = None" by simp_all
    ultimately show ?thesis using 4 h assms by (simp add: Deposit_fault_3)
  next
    case 5
    with h obtain b where "balance_of w walletID = Some b" by auto
    moreover from 5 h have "storage_fault env 0 = None" "storage_fault env 1 = None"
      "storage_fault env 2 = None" "storage_fault env 3 = None" by simp_all
    ultimately show ?thesis using 5 h assms by (simp add: Deposit_fault_4)
  qed
next
  fix e w'
  assume "Deposit env walletID amount description w = (Inl e, w')"
  then show "db w' = db w" by (rule Deposit_Inl)
next
  fix e w'
  assume "Deposit env walletID amount description w = (Inl e, w')"
  then show "cache w' = cache w" by (rule Deposit_Inl_cache)
qed

theorem Deposit_failure_modes_witness:
  "\<not> f64_le_zero amount_75_25 \<and>
   balance_of sample_world 999999 = None \<and>
   fst (Deposit sample_env 999999 amount_75_25 [] sample_world) = Inl ErrRecordNotFound \<and>
   db (snd (Deposit sample_env 999999 amount_75_25 [] sample_world)) = db sample_world \<and>
   storage_fault faulty_env 2 = Some (ErrStorage ''connection lost'') \<and>
   balance_of sample_world 1 \<noteq> None \<and>
   fst (Deposit faulty_env 1 amount_75_25 [] sample_world) = Inl (ErrStorage ''connection lost'') \<and>
   db (snd (Deposit faulty_env 1 amount_75_25 [] sample_world)) = db sample_world"
proof -
  note a = Deposit_failure_modes [OF positive_75_25, of sample_env sample_world 999999 "[]"]
  note b = Deposit_failure_modes [OF positive_75_25, of faulty_env sample_world 1 "[]"]
  have h: "storage_fault sample_env 0 = None" "storage_fault sample_env 1 = None"
    "balance_of sample_world 999999 = None" "balance_of sample_world 1 \<noteq> None"
    "storage_fault faulty_env 2 = Some (ErrStorage ''connection lost'')"
    "\<forall>j<2. storage_fault faulty_env j = None"
    by (simp_all add: balance_of_def sample_defs faulty_env_def)
  from a h have 1: "fst (Deposit sample_env 999999 amount_75_25 [] sample_world) = Inl ErrRecordNotFound"
    by blast
  from a have "\<forall>e w'. Deposit sample_env 999999 amount_75_25 [] sample_world = (Inl e, w') \<longrightarrow>
            db w' = db sample_world" by blast
  with 1 have 2: "db (snd (Deposit sample_env 999999 amount_75_25 [] sample_world)) = db sample_world"
    by (cases "Deposit sample_env 999999 amount_75_25 [] sample_world") auto
  from b have "(2::nat) \<le> 4 \<and> storage_fault faulty_env 2 = Some (ErrStorage ''connection lost'') \<and>
            (\<forall>j<2. storage_fault faulty_env j = None) \<and>
            ((2::nat) \<le> 2 \<longrightarrow> balance_of sample_world 1 \<noteq> None) \<and>
            ((2::nat) = 4 \<longrightarrow> new_uuid faulty_env 0 \<notin> set (map TransactionUUID (transactions (db sample_world)))) \<longrightarrow>
            fst (Deposit faulty_env 1 amount_75_25 [] sample_world) = Inl (ErrStorage ''connection lost'')"
    by blast
  with h have 3: "fst (Deposit faulty_env 1 amount_75_25 [] sample_world) = Inl (ErrStorage ''connection lost'')"
    by simp
  from b have "\<forall>e w'. Deposit faulty_env 1 amount_75_25 [] sample_world = (Inl e, w') \<longrightarrow>
            db w' = db sample_world" by blast
  with 3 have 4: "db (snd (Deposit faulty_env 1 amount_75_25 [] sample_world)) = db sample_world"
    by (cases "Deposit faulty_env 1 amount_75_25 [] sample_world") auto
  from 1 2 3 4 h positive_75_25 show ?thesis by simp
qed

section \<open>Claim about the order of the row locks\<close>

text \<open>
  C5 as stated fails: the two locking reads follow the order of the arguments. On the
  same store, Transfer(1, 2) locks wallet 1 and then wallet 2, and Transfer(2, 1) locks
  wallet 2 and then wallet 1; both transfers succeed.
\<close>

theorem Transfer_locks_in_argument_order_example:
  "lock_order (trace (snd (Transfer sample_env 1 2 amount_50_25 [] sample_world))) = [1, 2] \<and>
   lock_order (trace (snd (Transfer sample_env 2 1 amount_50_25 [] sample_world))) = [2, 1] \<and>
   fst (Transfer sample_env 1 2 amount_50_25 [] sample_world) =
     Inr \<lparr>tx_ID = 1, WalletID = 1, Type = TransactionTypeTransfer, Amount = - 5025,
          BalanceBefore = 12525, BalanceAfter = 7500, FromWalletID = Some 1,
          ToWalletID = Some 2, TransactionUUID = ''uuid-a'', Description = [],
          CreatedAt = 1000\<rparr> \<and>
   fst (Transfer sample_env 2 1 amount_50_25 [] sample_world) =
     Inr \<lparr>tx_ID = 1, WalletID = 2, Type = TransactionTypeTransfer, Amount = - 5025,
          BalanceBefore = 5025, BalanceAfter = 0, FromWalletID = Some 2,
          ToWalletID = Some 1, TransactionUUID = ''uuid-a'', Description = [],
          CreatedAt = 1000\<rparr>"
  by (simp add: engine_defs storage_defs cache_defs sample_defs Let_def
        minor_units_50_25 positive_50_25)

text \<open>
  C5 (amended). Every Transfer takes its exclusive row locks in the order of the call's
  arguments: first the source wallet, then the destination wallet. The locks a call
  takes are none (rejected before the storage transaction, or the begin fails), the
  source alone (the second locking read is not reached), or the source followed by the
  destination; a successful Transfer has taken both, source first.
\<close>

theorem Transfer_locks_source_then_destination:
  assumes "Transfer env f t amount description w = (res, w')"
  shows "(lock_order (trace w') = lock_order (trace w) \<or>
          lock_order (trace w') = lock_order (trace w) @ [f] \<or>
          lock_order (trace w') = lock_order (trace w) @ [f, t]) \<and>
         ((\<exists>r. res = Inr r) \<longrightarrow> lock_order (trace w') = lock_order (trace w) @ [f, t])"
proof (cases "f64_le_zero amount \<or> f = t")
  case True
  with assms show ?thesis
    by (auto simp: Transfer_def split: if_splits)
next
  case False
  let ?m = "DollarsToMinorUnits (oor env) amount"
  obtain res1 w1 where b: "Transfer_body env f t ?m description (log Begin w) = (res1, w1)"
    by (cases "Transfer_body env f t ?m description (log Begin w)")
  from Transfer_body_locks [OF b] have
    "(lock_order (trace w1) = lock_order (trace w) @ [f] \<and> (\<forall>r. res1 \<noteq> Inr r)) \<or>
     lock_order (trace w1) = lock_order (trace w) @ [f, t]"
    by simp
  with assms False b show ?thesis
    by (auto simp: Transfer_def db_Transaction_def cache_defs log_def Let_def
          split: option.splits sum.splits if_splits)
qed

theorem Transfer_locks_source_then_destination_witness:
  "Transfer sample_env 2 1 amount_50_25 [] sample_world =
     (Inr \<lparr>tx_ID = 1, WalletID = 2, Type = TransactionTypeTransfer, Amount = - 5025,
          BalanceBefore = 5025, BalanceAfter = 0, FromWalletID = Some 2,
          ToWalletID = Some 1, TransactionUUID = ''uuid-a'', Description = [],
          CreatedAt = 1000\<rparr>,
      snd (Transfer sample_env 2 1 amount_50_25 [] sample_world)) \<and>
   lock_order (trace (snd (Transfer sample_env 2 1 amount_50_25 [] sample_world))) =
     lock_order (trace sample_world) @ [2, 1]"
proof -
  have e: "Transfer sample_env 2 1 amount_50_25 [] sample_world =
     (Inr \<lparr>tx_ID = 1, WalletID = 2, Type = TransactionTypeTransfer, Amount = - 5025,
          BalanceBefore = 5025, BalanceAfter = 0, FromWalletID = Some 2,
          ToWalletID = Some 1, TransactionUUID = ''uuid-a'', Description = [],
          CreatedAt = 1000\<rparr>,
      snd (Transfer sample_env 2 1 amount_50_25 [] sample_world))"
    by (simp add: engine_defs storage_defs cache_defs sample_defs Let_def
        minor_units_50_25 positive_50_25)
  from Transfer_locks_source_then_destination [OF e] e show ?thesis
    by blast
qed

section \<open>Claim about the wallet read path\<close>

text \<open>
  C8. GetWallet asks the cache first. When the cache answers with an entry that
  deserialises, that wallet is returned and the storage is not consulted: the only call
  recorded is the cache read. When the cache misses, faults, or holds an entry that does
  not deserialise, and the storage does not fault, GetWallet reads the wallet from the
  storage; a wallet that is present is returned and written to the cache under the
  wallet key with a time-to-live of five minutes (the entry is there unless the cache
  write itself faults); a wallet that is absent gives the not-found error of the storage.
\<close>

theorem GetWallet_cache_aside:
  "(\<not> redis_fault env 0 \<and> cache w (wallet_cacheKey walletID) = Some (text, ttl) \<and>
    json_Unmarshal_wallet env text = Some wallet \<longrightarrow>
      GetWallet env walletID w = (Inr wallet, log (CacheGet (wallet_cacheKey walletID)) w)) \<and>
   ((redis_fault env 0 \<or> cache w (wallet_cacheKey walletID) = None \<or>
     (cache w (wallet_cacheKey walletID) = Some (text, ttl) \<and>
      json_Unmarshal_wallet env text = None)) \<and>
    storage_fault env 0 = None \<longrightarrow>
      (find (\<lambda>r. wallet_ID r = walletID) (wallets (db w)) = Some r \<longrightarrow>
         GetWallet env walletID w =
           (Inr r,
            redis_Set env 1 (wallet_cacheKey walletID) (json_Marshal_wallet env r) (5 * 60)
              (log (SelectWallet walletID) (log (CacheGet (wallet_cacheKey walletID)) w))) \<and>
         (\<not> redis_fault env 1 \<longrightarrow>
            cache (snd (GetWallet env walletID w)) (wallet_cacheKey walletID) =
              Some (json_Marshal_wallet env r, 5 * 60))) \<and>
      (find (\<lambda>r. wallet_ID r = walletID) (wallets (db w)) = None \<longrightarrow>
         GetWallet env walletID w =
           (Inl ErrRecordNotFound,
            log (SelectWallet walletID) (log (CacheGet (wallet_cacheKey walletID)) w))))"
  by (auto simp: GetWallet_def redis_Get_def redis_Set_def walletRepo_GetByID_def log_def Let_def)

theorem GetWallet_cache_aside_witness:
  "cache cached_world (wallet_cacheKey 1) = Some (''cached-wallet'', 300) \<and>
   json_Unmarshal_wallet codec_env ''cached-wallet'' = Some cached_wallet \<and>
   GetWallet codec_env 1 cached_world = (Inr cached_wallet, log (CacheGet ''wallet:1'') cached_world) \<and>
   balance_of cached_world 1 = Some 12525 \<and> Balance cached_wallet = 99 \<and>
   cache cached_world (wallet_cacheKey 2) = None \<and>
   fst (GetWallet codec_env 2 cached_world) = Inr \<lparr>wallet_ID = 2, UserID = 1, Balance = 5025\<rparr> \<and>
   cache (snd (GetWallet codec_env 2 cached_world)) (wallet_cacheKey 2) = Some (''wallet-json'', 300) \<and>
   cache cached_world (wallet_cacheKey 999999) = None \<and>
   fst (GetWallet codec_env 999999 cached_world) = Inl ErrRecordNotFound"
proof -
  have k: "wallet_cacheKey 999999 = ''wallet:999999''"
    by (simp add: wallet_cacheKey_def fmt_uint.simps digit_char_def)
  have c: "cache cached_world (wallet_cacheKey 1) = Some (''cached-wallet'', 300)"
    "cache cached_world (wallet_cacheKey 2) = None"
    "cache cached_world (wallet_cacheKey 999999) = None"
    unfolding wallet_cacheKey_1 wallet_cacheKey_2 k
    by (simp_all add: cached_world_def)
  have e: "\<not> redis_fault codec_env 0" "\<not> redis_fault codec_env 1"
    "storage_fault codec_env 0 = None"
    "json_Unmarshal_wallet codec_env ''cached-wallet'' = Some cached_wallet"
    "\<And>r. json_Marshal_wallet codec_env r = ''wallet-json''"
    by (simp_all add: codec_env_def sample_env_def)
  have f: "find (\<lambda>r. wallet_ID r = 2) (wallets (db cached_world)) =
             Some \<lparr>wallet_ID = 2, UserID = 1, Balance = 5025\<rparr>"
    "find (\<lambda>r. wallet_ID r = 999999) (wallets (db cached_world)) = None"
    "balance_of cached_world 1 = Some 12525" "Balance cached_wallet = 99"
    by (simp_all add: cached_world_def sample_world_def sample_db_def balance_of_def
          cached_wallet_def)
  note hit = GetWallet_cache_aside
    [of codec_env cached_world 1 "''cached-wallet''" 300 cached_wallet, THEN conjunct1]
  note miss = GetWallet_cache_aside
    [of codec_env cached_world 2 "[]" 0 _ "\<lparr>wallet_ID = 2, UserID = 1, Balance = 5025\<rparr>",
     THEN conjunct2]
  note absent = GetWallet_cache_aside
    [of codec_env cached_world 999999 "[]" 0 _ "\<lparr>wallet_ID = 2, UserID = 1, Balance = 5025\<rparr>",
     THEN conjunct2]
  from hit c(1) e(1,4) have
    "GetWallet codec_env 1 cached_world =
       (Inr cached_wallet, log (CacheGet (wallet_cacheKey 1)) cached_world)"
    by blast
  then have 1:
    "GetWallet codec_env 1 cached_world =
       (Inr cached_wallet, log (CacheGet ''wallet:1'') cached_world)"
    unfolding wallet_cacheKey_1 .
  from miss c(2) e(2,3,5) f(1) have 2:
    "fst (GetWallet codec_env 2 cached_world) = Inr \<lparr>wallet_ID = 2, UserID = 1, Balance = 5025\<rparr>"
    "cache (snd (GetWallet codec_env 2 cached_world)) (wallet_cacheKey 2) =
       Some (''wallet-json'', 300)"
    by auto
  from absent c(3) e(3) f(2) have 3:
    "fst (GetWallet codec_env 999999 cached_world) = Inl ErrRecordNotFound"
    by simp
  from 1 2 3 c e(4) f(3,4) show ?thesis
    by simp
qed

section \<open>Claim about the transaction history\<close>

text \<open>
  C9 as stated fails in its ordering part: the query sorts by creation time only, and
  the storage is free to return rows of equal creation time in any order. After two
  deposits on wallet 1 within one tick of the clock, the same query returns the two
  records in insertion order under one choice of the storage and in the opposite order
  under another; neither page is strictly descending by creation time.
\<close>

theorem history_ties_in_either_order:
  "fst (GetByWalletID sample_env 0 1 10 0 tied_world) =
     Inr [sample_deposit_row, second_deposit_row] \<and>
   fst (GetByWalletID reverse_env 0 1 10 0 tied_world) =
     Inr [second_deposit_row, sample_deposit_row] \<and>
   CreatedAt sample_deposit_row = CreatedAt second_deposit_row \<and>
   tx_ID sample_deposit_row < tx_ID second_deposit_row \<and>
   \<not> strictly_newest_first [sample_deposit_row, second_deposit_row] \<and>
   \<not> strictly_newest_first [second_deposit_row, sample_deposit_row]"
  by (simp add: GetByWalletID_def log_def Let_def tied_world_rows limit_offset_def
        order_by_created_at_desc_def strictly_newest_first_def reverse_env_def sample_env_def
        sample_deposit_row_def second_deposit_row_def)

text \<open>
  C9 (amended). GetByWalletID returns records of the wallet only, taken from its
  stored records, in non-increasing order of creation time; the order among records of
  equal creation time is left to the storage. GetTransactions builds its cache key from
  wallet_id, limit and offset, and two windows have the same key only when they are the
  same window. On a valid cache hit it returns the cached page; otherwise (miss, cache
  fault or unreadable entry) it returns the page GetByWalletID reads and stores it under
  the key of this window with a time-to-live of two minutes.
\<close>

theorem history_order_and_cache_keys:
  "(GetByWalletID env i walletID limit offset w = (Inr rows, w') \<longrightarrow>
      newest_first rows \<and>
      (\<forall>t\<in>set rows. WalletID t = walletID \<and> t \<in> set (transactions (db w)))) \<and>
   (transactions_cacheKey a l k = transactions_cacheKey a' l' k' \<longrightarrow>
      a = a' \<and> l = l' \<and> k = k') \<and>
   (\<not> redis_fault env 0 \<and>
    cache w (transactions_cacheKey walletID limit offset) = Some (text, ttl) \<and>
    json_Unmarshal_transactions env text = Some txs \<longrightarrow>
      GetTransactions env walletID limit offset w =
        (Inr txs, log (CacheGet (transactions_cacheKey walletID limit offset)) w)) \<and>
   ((redis_fault env 0 \<or>
     cache w (transactions_cacheKey walletID limit offset) = None \<or>
     (cache w (transactions_cacheKey walletID limit offset) = Some (text, ttl) \<and>
      json_Unmarshal_transactions env text = None)) \<and>
    storage_fault env 0 = None \<longrightarrow>
      (\<exists>page w''. GetTransactions env walletID limit offset w = (Inr page, w'') \<and>
         newest_first page \<and>
         (\<forall>t\<in>set page. WalletID t = walletID \<and> t \<in> set (transactions (db w))) \<and>
         (\<forall>json. json_Marshal_transactions env page = Some json \<and> \<not> redis_fault env 1 \<longrightarrow>
            cache w'' (transactions_cacheKey walletID limit offset) = Some (json, 2 * 60))))"
proof (intro conjI)
  show "GetByWalletID env i walletID limit offset w = (Inr rows, w') \<longrightarrow>
      newest_first rows \<and>
      (\<forall>t\<in>set rows. WalletID t = walletID \<and> t \<in> set (transactions (db w)))"
    using GetByWalletID_rows by blast
next
  show "transactions_cacheKey a l k = transactions_cacheKey a' l' k' \<longrightarrow>
      a = a' \<and> l = l' \<and> k = k'"
    using transactions_cacheKey_inj by blast
next
  show "\<not> redis_fault env 0 \<and>
    cache w (transactions_cacheKey walletID limit offset) = Some (text, ttl) \<and>
    json_Unmarshal_transactions env text = Some txs \<longrightarrow>
      GetTransactions env walletID limit offset w =
        (Inr txs, log (CacheGet (transactions_cacheKey walletID limit offset)) w)"
    using GetTransactions_hit by blast
next
  show "(redis_fault env 0 \<or>
     cache w (transactions_cacheKey walletID limit offset) = None \<or>
     (cache w (transactions_cacheKey walletID limit offset) = Some (text, ttl) \<and>
      json_Unmarshal_transactions env text = None)) \<and>
    storage_fault env 0 = None \<longrightarrow>
      (\<exists>page w''. GetTransactions env walletID limit offset w = (Inr page, w'') \<and>
         newest_first page \<and>
         (\<forall>t\<in>set page. WalletID t = walletID \<and> t \<in> set (transactions (db w))) \<and>
         (\<forall>json. json_Marshal_transactions env page = Some json \<and> \<not> redis_fault env 1 \<longrightarrow>
            cache w'' (transactions_cacheKey walletID limit offset) = Some (json, 2 * 60)))"
  proof
    let ?key = "transactions_cacheKey walletID limit offset"
    assume h: "(redis_fault env 0 \<or> cache w ?key = None \<or>
       (cache w ?key = Some (text, ttl) \<and> json_Unmarshal_transactions env text = None)) \<and>
      storage_fault env 0 = None"
    then have miss: "redis_fault env 0 \<or> cache w ?key = None \<or>
       (cache w ?key = Some (text, ttl) \<and> json_Unmarshal_transactions env text = None)"
      and ok: "storage_fault env 0 = None"
      by simp_all
    from GetTransactions_read_through [OF miss ok] obtain page w'' where
      g: "GetTransactions env walletID limit offset w = (Inr page, w'')" and
      q: "fst (GetByWalletID env 0 walletID limit offset (log (CacheGet ?key) w)) = Inr page" and
      c: "\<forall>json. json_Marshal_transactions env page = Some json \<and> \<not> redis_fault env 1 \<longrightarrow>
            cache w'' ?key = Some (json, 2 * 60)"
      by blast
    from q have "GetByWalletID env 0 walletID limit offset (log (CacheGet ?key) w) =
        (Inr page, snd (GetByWalletID env 0 walletID limit offset (log (CacheGet ?key) w)))"
      by (metis prod.collapse)
    from GetByWalletID_rows [OF this] have
      "newest_first page \<and>
       (\<forall>t\<in>set page. WalletID t = walletID \<and> t \<in> set (transactions (db w)))"
      by simp
    with g c show "\<exists>page w''. GetTransactions env walletID limit offset w = (Inr page, w'') \<and>
         newest_first page \<and>
         (\<forall>t\<in>set page. WalletID t = walletID \<and> t \<in> set (transactions (db w))) \<and>
         (\<forall>json. json_Marshal_transactions env page = Some json \<and> \<not> redis_fault env 1 \<longrightarrow>
            cache w'' ?key = Some (json, 2 * 60))"
      by blast
  qed
qed

theorem history_order_and_cache_keys_witness:
  "GetByWalletID sample_env 0 1 10 0 tied_world =
     (Inr [sample_deposit_row, second_deposit_row], log (SelectTransactions 1 10 0) tied_world) \<and>
   newest_first [sample_deposit_row, second_deposit_row] \<and>
   transactions_cacheKey 1 10 0 \<noteq> transactions_cacheKey 1 10 10 \<and>
   cache tied_world (transactions_cacheKey 1 10 0) = None \<and>
   storage_fault sample_env 0 = None \<and>
   fst (GetTransactions sample_env 1 10 0 tied_world) =
     Inr [sample_deposit_row, second_deposit_row] \<and>
   cache (snd (GetTransactions sample_env 1 10 0 tied_world)) (transactions_cacheKey 1 10 0) =
     Some (''transactions-json'', 120)"
proof -
  note T = history_order_and_cache_keys
    [of sample_env 0 1 10 0 tied_world "[sample_deposit_row, second_deposit_row]"
        "log (SelectTransactions 1 10 0) tied_world" 1 10 0 1 10 10 "[]" 0 "[]"]
  have h: "cache tied_world (transactions_cacheKey 1 10 0) = None"
    "storage_fault sample_env 0 = None" "\<not> redis_fault sample_env 1"
    "\<And>page. json_Marshal_transactions sample_env page = Some ''transactions-json''"
    by (simp_all add: tied_world_cache sample_env_def)
  from T sample_history_page have 1: "newest_first [sample_deposit_row, second_deposit_row]"
    by blast
  from T have "transactions_cacheKey 1 10 0 = transactions_cacheKey 1 10 10 \<longrightarrow> (0::int) = 10"
    by blast
  then have 2: "transactions_cacheKey 1 10 0 \<noteq> transactions_cacheKey 1 10 10"
    by auto
  from T h(1,2) obtain page w'' where
    g: "GetTransactions sample_env 1 10 0 tied_world = (Inr page, w'')" and
    c: "\<forall>json. json_Marshal_transactions sample_env page = Some json \<and> \<not> redis_fault sample_env 1 \<longrightarrow>
            cache w'' (transactions_cacheKey 1 10 0) = Some (json, 2 * 60)"
    by blast
  from c h(3,4) have "cache w'' (transactions_cacheKey 1 10 0) = Some (''transactions-json'', 2 * 60)"
    by blast
  with g have 3: "cache (snd (GetTransactions sample_env 1 10 0 tied_world))
      (transactions_cacheKey 1 10 0) = Some (''transactions-json'', 120)"
    by simp
  from 1 2 3 h(1,2) sample_history_page sample_history_read show ?thesis
    by blast
qed

section \<open>Claim about amounts below one minor unit\<close>

text \<open>
  C10. Deposit checks positivity on the \<open>float64\<close> amount and only then converts it
  to minor units by truncation. The \<open>float64\<close> nearest to 0.004 is positive and
  converts to 0 minor units, so a Deposit of it on an existing wallet (no storage fault,
  fresh transaction identifier) succeeds, leaves the balance as it was and writes a
  Transaction Record with amount 0 and balance_after equal to balance_before.
\<close>

theorem Deposit_below_one_minor_unit:
  assumes "storage_fault env 0 = None" and "storage_fault env 1 = None"
    and "storage_fault env 2 = None" and "storage_fault env 3 = None"
    and "storage_fault env 4 = None"
    and "balance_of w walletID = Some b"
    and "new_uuid env 0 \<notin> set (map TransactionUUID (transactions (db w)))"
  shows "\<not> f64_le_zero amount_0_004 \<and>
         DollarsToMinorUnits (oor env) amount_0_004 = 0 \<and>
         (\<exists>t w'. Deposit env walletID amount_0_004 description w = (Inr t, w') \<and>
            Amount t = 0 \<and> BalanceBefore t = b \<and> BalanceAfter t = BalanceBefore t \<and>
            balance_of w' walletID = balance_of w walletID \<and>
            transactions (db w') = transactions (db w) @ [t])"
proof -
  from Deposit_succeeds [OF positive_0_004 assms] obtain t w' where
    d: "Deposit env walletID amount_0_004 description w = (Inr t, w')"
    by blast
  from Deposit_Inr [OF d] obtain w1 where
    "Deposit_body env walletID (DollarsToMinorUnits (oor env) amount_0_004) description
       (log Begin w) = (Inr t, w1)"
    by blast
  from Deposit_body_Inr [OF this] have a: "Amount t = 0"
    by (auto simp: minor_units_0_004)
  from Deposit_record [OF d] a assms(6) have
    "Amount t = 0 \<and> BalanceBefore t = b \<and> BalanceAfter t = BalanceBefore t \<and>
     balance_of w' walletID = balance_of w walletID \<and>
     transactions (db w') = transactions (db w) @ [t]"
    by simp
  with d show ?thesis
    using positive_0_004 minor_units_0_004 by blast
qed

theorem Deposit_below_one_minor_unit_witness:
  "balance_of sample_world 1 = Some 12525 \<and>
   \<not> f64_le_zero amount_0_004 \<and>
   fst (Deposit sample_env 1 amount_0_004 [] sample_world) =
     Inr \<lparr>tx_ID = 1, WalletID = 1, Type = TransactionTypeDeposit, Amount = 0,
          BalanceBefore = 12525, BalanceAfter = 12525, FromWalletID = None,
          ToWalletID = None, TransactionUUID = ''uuid-a'', Description = [],
          CreatedAt = 1000\<rparr> \<and>
   balance_of (snd (Deposit sample_env 1 amount_0_004 [] sample_world)) 1 = Some 12525"
proof -
  have h: "storage_fault sample_env 0 = None" "storage_fault sample_env 1 = None"
    "storage_fault sample_env 2 = None" "storage_fault sample_env 3 = None"
    "storage_fault sample_env 4 = None"
    "balance_of sample_world 1 = Some 12525"
    "new_uuid sample_env 0 \<notin> set (map TransactionUUID (transactions (db sample_world)))"
    by (simp_all add: balance_of_def sample_defs)
  have e: "fst (Deposit sample_env 1 amount_0_004 [] sample_world) =
     Inr \<lparr>tx_ID = 1, WalletID = 1, Type = TransactionTypeDeposit, Amount = 0,
          BalanceBefore = 12525, BalanceAfter = 12525, FromWalletID = None,
          ToWalletID = None, TransactionUUID = ''uuid-a'', Description = [],
          CreatedAt = 1000\<rparr>"
    by (simp add: Deposit_def Deposit_body_def storage_defs cache_defs sample_defs Let_def
        minor_units_0_004 positive_0_004 set_balance_def)
  from Deposit_below_one_minor_unit [OF h, of "[]"] e h(6)
  show ?thesis by auto
qed

end
